theory Spec2Isabelle
  imports Main "HOL-Library.FSet"
begin

section \<open>Python strings\<close>

text \<open>
  A Python \<open>str\<close> is a sequence of Unicode code points; the patterns of the bot
  configurations contain Cyrillic letters, so a string is a list of code points and not a
  list of bytes. \<open>ustr\<close> embeds an ASCII literal.
\<close>

type_synonym pystr = "nat list"

definition ustr :: "string \<Rightarrow> pystr" where
  "ustr s = map of_char s"

text \<open>
  \<open>str.isspace\<close> on one character, which is also what \<open>\s\<close> matches in a \<open>str\<close>
  pattern of the \<open>re\<close> module: the ASCII white space (tab to carriage return, the
  four separators \<open>0x1c\<close> to \<open>0x1f\<close>, the blank) and the Unicode white space.
\<close>

definition is_space :: "nat \<Rightarrow> bool" where
  "is_space c \<longleftrightarrow> (9 \<le> c \<and> c \<le> 13) \<or> (28 \<le> c \<and> c \<le> 32) \<or> c = 133 \<or> c = 160
     \<or> c = 5760 \<or> (8192 \<le> c \<and> c \<le> 8202) \<or> c = 8232 \<or> c = 8233 \<or> c = 8239
     \<or> c = 8287 \<or> c = 12288"

text \<open>\<open>s.lstrip(chars)\<close> and \<open>s.rstrip(chars)\<close>: every leading (trailing) character
  that occurs in \<open>chars\<close> is removed.\<close>

definition py_lstrip :: "pystr \<Rightarrow> pystr \<Rightarrow> pystr" where
  "py_lstrip chars s = dropWhile (\<lambda>c. c \<in> set chars) s"

definition py_rstrip :: "pystr \<Rightarrow> pystr \<Rightarrow> pystr" where
  "py_rstrip chars s = rev (dropWhile (\<lambda>c. c \<in> set chars) (rev s))"

text \<open>\<open>s.strip()\<close> without argument removes white space at both ends.\<close>

definition py_strip :: "pystr \<Rightarrow> pystr" where
  "py_strip s = rev (dropWhile is_space (rev (dropWhile is_space s)))"

text \<open>\<open>s.split()\<close> without argument: the maximal runs of characters that are not white
  space. The first argument is the word read so far.\<close>

fun split_ws :: "pystr \<Rightarrow> pystr \<Rightarrow> pystr list" where
  "split_ws w [] = (if w = [] then [] else [w])"
| "split_ws w (c # cs) =
     (if is_space c then (if w = [] then split_ws [] cs else w # split_ws [] cs)
      else split_ws (w @ [c]) cs)"

definition py_split :: "pystr \<Rightarrow> pystr list" where
  "py_split s = split_ws [] s"

text \<open>\<open>sep.join(parts)\<close>.\<close>

fun py_join :: "pystr \<Rightarrow> pystr list \<Rightarrow> pystr" where
  "py_join sep [] = []"
| "py_join sep [x] = x"
| "py_join sep (x # y # ys) = x @ sep @ py_join sep (y # ys)"

text \<open>\<open>s.split(sep)[0]\<close> for a separator of one character: the text before its first
  occurrence (the whole string when it does not occur).\<close>

definition split_first :: "nat \<Rightarrow> pystr \<Rightarrow> pystr" where
  "split_first sep s = takeWhile (\<lambda>c. c \<noteq> sep) s"

section \<open>The substitutions of \<open>regex_to_sample_message\<close>\<close>

text \<open>
  \<open>re.sub(regex, replacement, s)\<close> replaces the matches of \<open>regex\<close> in \<open>s\<close>, found from
  left to right, without overlap. The source uses eight regular expressions of four
  shapes; each shape is one function.

  \<open>sub_run P rep\<close> is \<open>re.sub\<close> for a regex \<open>c+\<close>, where \<open>P\<close> says which characters
  \<open>c\<close> matches: every maximal run of such characters becomes \<open>rep\<close>.
\<close>

function sub_run :: "(nat \<Rightarrow> bool) \<Rightarrow> pystr \<Rightarrow> pystr \<Rightarrow> pystr" where
  "sub_run P rep [] = []"
| "sub_run P rep (c # cs) =
     (if P c then rep @ sub_run P rep (dropWhile P cs) else c # sub_run P rep cs)"
  by pat_completeness auto
termination
  by (relation "measure (\<lambda>(P, rep, s). length s)")
     (auto simp: length_dropWhile_le less_Suc_eq_le)

text \<open>
  \<open>sub_star P rep\<close> is \<open>re.sub\<close> for a regex \<open>c*\<close>, which also matches the empty
  string. From Python 3.7 on an empty match is replaced wherever it occurs, also right
  after a match that was not empty: \<open>re.sub('x*', '-', 'abxd')\<close> is \<open>'-a-b--d-'\<close>. So
  \<open>rep\<close> is inserted before every character that \<open>c\<close> does not match and at the end of
  the string, and a run of matching characters becomes \<open>rep\<close> (followed by the \<open>rep\<close> of
  the empty match behind it).
\<close>

function sub_star :: "(nat \<Rightarrow> bool) \<Rightarrow> pystr \<Rightarrow> pystr \<Rightarrow> pystr" where
  "sub_star P rep [] = rep"
| "sub_star P rep (c # cs) =
     (if P c then rep @ sub_star P rep (dropWhile P cs) else rep @ c # sub_star P rep cs)"
  by pat_completeness auto
termination
  by (relation "measure (\<lambda>(P, rep, s). length s)")
     (auto simp: length_dropWhile_le less_Suc_eq_le)

text \<open>
  \<open>sub_lit lit rep\<close> is \<open>re.sub\<close> for a regex that matches exactly the string \<open>lit\<close>
  (which is not empty): the same as \<open>s.replace(lit, rep)\<close>.
\<close>

function sub_lit :: "pystr \<Rightarrow> pystr \<Rightarrow> pystr \<Rightarrow> pystr" where
  "sub_lit lit rep [] = []"
| "sub_lit lit rep (c # cs) =
     (if lit \<noteq> [] \<and> take (length lit) (c # cs) = lit
      then rep @ sub_lit lit rep (drop (length lit) (c # cs))
      else c # sub_lit lit rep cs)"
  by pat_completeness auto
termination
  by (relation "measure (\<lambda>(lit, rep, s). length s)") auto

text \<open>
  \<open>sub_esc_run ch rep\<close> is \<open>re.sub\<close> for the regex written \<open>r"\\d+"\<close> in the source
  (with \<open>ch\<close> the letter): a backslash followed by one or more occurrences of the letter
  \<open>ch\<close>. The \<open>+\<close> of the regex applies to the letter alone.
\<close>

function sub_esc_run :: "nat \<Rightarrow> pystr \<Rightarrow> pystr \<Rightarrow> pystr" where
  "sub_esc_run ch rep [] = []"
| "sub_esc_run ch rep [c] = [c]"
| "sub_esc_run ch rep (c # d # cs) =
     (if c = 92 \<and> d = ch then rep @ sub_esc_run ch rep (dropWhile (\<lambda>x. x = ch) cs)
      else c # sub_esc_run ch rep (d # cs))"
  by pat_completeness auto
termination
  by (relation "measure (\<lambda>(ch, rep, s). length s)")
     (auto simp: length_dropWhile_le less_Suc_eq_le le_SucI)

text \<open>The regular expressions of the list \<open>replacements\<close>, by shape.\<close>

datatype regex =
    WsPlus          \<comment> \<open>\<open>r"\s+"\<close>\<close>
  | WsStar          \<comment> \<open>\<open>r"\s*"\<close>\<close>
  | DotPlus         \<comment> \<open>\<open>r"\.+"\<close>\<close>
  | Literal pystr   \<comment> \<open>\<open>r"\.\*"\<close>, \<open>r"\\d\*"\<close>, \<open>r"\\w\*"\<close>: the literal text\<close>
  | EscRun nat      \<comment> \<open>\<open>r"\\d+"\<close>, \<open>r"\\w+"\<close>: the letter\<close>

fun re_sub :: "regex \<Rightarrow> pystr \<Rightarrow> pystr \<Rightarrow> pystr" where
  "re_sub WsPlus rep s = sub_run is_space rep s"
| "re_sub WsStar rep s = sub_star is_space rep s"
| "re_sub DotPlus rep s = sub_run (\<lambda>c. c = 46) rep s"
| "re_sub (Literal lit) rep s = sub_lit lit rep s"
| "re_sub (EscRun ch) rep s = sub_esc_run ch rep s"

text \<open>The list \<open>replacements\<close>, in the order of the source. Code point 92 is the
  backslash, 46 the dot, 42 the star, 100 and 119 the letters d and w.\<close>

definition replacements :: "(regex \<times> pystr) list" where
  "replacements =
     [(WsPlus, ustr '' ''),
      (WsStar, ustr '' ''),
      (DotPlus, ustr '' ''),
      (Literal [46, 42], ustr '' ''),
      (EscRun 100, ustr ''1''),
      (Literal [92, 100, 42], ustr ''1''),
      (EscRun 119, ustr ''a''),
      (Literal [92, 119, 42], ustr ''a'')]"

text \<open>The loop \<open>for regex_pat, replacement in replacements: pattern = re.sub(...)\<close>.\<close>

definition apply_replacements :: "pystr \<Rightarrow> pystr" where
  "apply_replacements pattern = fold (\<lambda>(rx, rep) p. re_sub rx rep p) replacements pattern"

text \<open>The line \<open>pattern = pattern.lstrip("^").rstrip("$")\<close> (94 is the caret, 36 the
  dollar sign).\<close>

definition strip_anchors :: "pystr \<Rightarrow> pystr" where
  "strip_anchors pattern = py_rstrip [36] (py_lstrip [94] pattern)"

text \<open>The function \<open>regex_to_sample_message\<close> of \<open>bot_testing/utils.py\<close>, statement by
  statement (124 is the vertical bar).\<close>

definition regex_to_sample_message :: "pystr \<Rightarrow> pystr" where
  "regex_to_sample_message pattern =
     (if pattern = [] then ustr ''test''
      else
        let p1 = (if 124 \<in> set pattern then split_first 124 pattern else pattern);
            p2 = strip_anchors p1;
            p3 = apply_replacements p2;
            p4 = sub_lit [92] [] p3;
            p5 = py_join (ustr '' '') (py_split p4)
        in if py_strip p5 = [] then ustr ''test'' else py_strip p5)"

section \<open>Values of a loaded configuration\<close>

text \<open>
  \<open>json.load\<close> returns nested Python values: \<open>None\<close>, booleans, integers, strings,
  lists and dictionaries with string keys (floating-point numbers are left out of the
  model). The extractor reads them with \<open>.get\<close> and never checks a type, so a field can
  hold any value; \<open>JNull\<close> is \<open>None\<close>. A dictionary is an association list read with
  \<open>map_of\<close>.
\<close>

datatype json =
    JNull
  | JBool bool
  | JInt int
  | JStr pystr
  | JArr "json list"
  | JObj "(pystr \<times> json) list"

text \<open>The exceptions that the modelled code can raise.\<close>

datatype error = AttributeError | TypeError

definition bindE :: "error + 'a \<Rightarrow> ('a \<Rightarrow> error + 'b) \<Rightarrow> error + 'b" where
  "bindE m f = (case m of Inl e \<Rightarrow> Inl e | Inr x \<Rightarrow> f x)"

text \<open>A loop that builds a list by \<open>append\<close>; the first exception ends it.\<close>

fun mapE :: "('a \<Rightarrow> error + 'b) \<Rightarrow> 'a list \<Rightarrow> error + 'b list" where
  "mapE f [] = Inr []"
| "mapE f (x # xs) = bindE (f x) (\<lambda>y. bindE (mapE f xs) (\<lambda>ys. Inr (y # ys)))"

text \<open>\<open>d.get(key, default)\<close>: only a dictionary has the method.\<close>

fun dict_get :: "json \<Rightarrow> pystr \<Rightarrow> json \<Rightarrow> error + json" where
  "dict_get (JObj kvs) k d = Inr (case map_of kvs k of Some v \<Rightarrow> v | None \<Rightarrow> d)"
| "dict_get _ k d = Inl AttributeError"

text \<open>The elements a \<open>for\<close> loop sees: those of a list, the keys of a dictionary, the
  characters of a string; the other values are not iterable.\<close>

fun py_iter :: "json \<Rightarrow> error + json list" where
  "py_iter (JArr xs) = Inr xs"
| "py_iter (JObj kvs) = Inr (map JStr (remdups (map fst kvs)))"
| "py_iter (JStr s) = Inr (map (\<lambda>c. JStr [c]) s)"
| "py_iter _ = Inl TypeError"

lemma size_in_json_list:
  "z \<in> set xs \<Longrightarrow> size z < Suc (size_list size xs)" for z :: json
  by (induction xs) auto

lemma size_in_json_dict:
  "map_of kvs k = Some v \<Longrightarrow> size v < Suc (size_list (size_prod (\<lambda>_. 0) size) kvs)"
  for v :: json
  by (induction kvs) (auto split: if_splits)

text \<open>
  Python's \<open>==\<close> on these values: \<open>True == 1\<close> and \<open>False == 0\<close> hold, lists are
  compared element by element, dictionaries as mappings (same keys, equal values), and
  values of different kinds are otherwise unequal.
\<close>

function py_eq :: "json \<Rightarrow> json \<Rightarrow> bool" where
  "py_eq JNull y = (y = JNull)"
| "py_eq (JBool a) y = (y = JBool a \<or> y = JInt (if a then 1 else 0))"
| "py_eq (JInt m) y = (y = JInt m \<or> (m = 1 \<and> y = JBool True) \<or> (m = 0 \<and> y = JBool False))"
| "py_eq (JStr s) y = (y = JStr s)"
| "py_eq (JArr xs) y = (case y of JArr ys \<Rightarrow> list_all2 py_eq xs ys | _ \<Rightarrow> False)"
| "py_eq (JObj a) y =
     (case y of
        JObj b \<Rightarrow> set (map fst a) = set (map fst b) \<and>
          (\<forall>k \<in> set (map fst a).
             case map_of a k of None \<Rightarrow> False
             | Some v \<Rightarrow> (case map_of b k of None \<Rightarrow> False | Some w \<Rightarrow> py_eq v w))
      | _ \<Rightarrow> False)"
  by pat_completeness auto
termination
  by (relation "measure (\<lambda>(x, y). size x)")
     (simp_all add: size_in_json_list size_in_json_dict)

text \<open>\<open>needle in s\<close> for two strings: \<open>needle\<close> occurs in \<open>s\<close> as a substring.\<close>

fun is_substring :: "pystr \<Rightarrow> pystr \<Rightarrow> bool" where
  "is_substring k [] = (k = [])"
| "is_substring k (c # cs) = (take (length k) (c # cs) = k \<or> is_substring k cs)"

text \<open>\<open>key in v\<close> for a string \<open>key\<close>: a key of a dictionary, a substring of a
  string, an element of a list; \<open>TypeError\<close> on the values that are not containers.\<close>

fun py_contains :: "json \<Rightarrow> pystr \<Rightarrow> error + bool" where
  "py_contains (JObj kvs) k = Inr (k \<in> set (map fst kvs))"
| "py_contains (JStr s) k = Inr (is_substring k s)"
| "py_contains (JArr xs) k = Inr (\<exists>x \<in> set xs. py_eq x (JStr k))"
| "py_contains _ k = Inl TypeError"

text \<open>\<open>v[key]\<close> for a string \<open>key\<close> that is known to be in \<open>v\<close>: the value of a
  dictionary; a string or a list cannot be indexed by a string.\<close>

fun py_getitem :: "json \<Rightarrow> pystr \<Rightarrow> error + json" where
  "py_getitem (JObj kvs) k = (case map_of kvs k of Some v \<Rightarrow> Inr v | None \<Rightarrow> Inl TypeError)"
| "py_getitem _ k = Inl TypeError"

text \<open>The decimal digits of an index, as an f-string writes it.\<close>

function str_nat :: "nat \<Rightarrow> pystr" where
  "str_nat n = (if n < 10 then [48 + n] else str_nat (n div 10) @ [48 + n mod 10])"
  by pat_completeness auto
termination
  by (relation "measure (\<lambda>n. n)") auto

declare str_nat.simps [simp del]

definition str_int :: "int \<Rightarrow> pystr" where
  "str_int i = (if i < 0 then 45 # str_nat (nat (- i)) else str_nat (nat i))"

text \<open>
  What an f-string writes for a value: a string as it is, \<open>None\<close>, \<open>True\<close>, \<open>False\<close>
  and integers by name. For a list or a dictionary it writes the interpreter's \<open>repr\<close>,
  whose quoting depends on the Unicode tables; that function is the parameter \<open>R\<close>.
\<close>

fun py_format :: "(json \<Rightarrow> pystr) \<Rightarrow> json \<Rightarrow> pystr" where
  "py_format R (JStr s) = s"
| "py_format R JNull = ustr ''None''"
| "py_format R (JBool b) = (if b then ustr ''True'' else ustr ''False'')"
| "py_format R (JInt i) = str_int i"
| "py_format R v = R v"

section \<open>The element model (\<open>bot_testing/config/element_types.py\<close>)\<close>

text \<open>The four dataclasses. A field holds what \<open>.get\<close> returned, so its type is \<open>json\<close>
  where the annotation says \<open>str\<close>; the paths are built by f-strings and are strings.\<close>

record BlockInfo =
  b_path :: pystr
  b_type :: json
  b_data :: json
  b_scenario_slug :: json
  b_scenario_name :: json
  b_node_id :: json
  b_node_name :: json
  b_block_id :: json

record EntryEdgeInfo =
  e_path :: pystr
  e_type :: json
  e_pattern :: json
  e_target_node_id :: json
  e_scenario_slug :: json
  e_scenario_name :: json
  e_edge_id :: json
  e_name :: json

record NodeInfo =
  n_path :: pystr
  n_node_id :: json
  n_name :: json
  n_scenario_slug :: json
  n_scenario_name :: json
  n_blocks :: "BlockInfo list"
  n_next_node_id :: json

record ScenarioInfo =
  s_path :: pystr
  s_scenario_id :: json
  s_name :: json
  s_slug :: json
  s_parent_scenario_id :: json
  s_entry_edges :: "EntryEdgeInfo list"
  s_nodes :: "NodeInfo list"

section \<open>The extractor (\<open>bot_testing/config/extractor.py\<close>)\<close>

text \<open>The object has one attribute, \<open>None\<close> after \<open>__init__\<close>.\<close>

record ElementExtractor =
  config_attrs :: json

definition ElementExtractor_init :: ElementExtractor where
  "ElementExtractor_init = \<lparr>config_attrs = JNull\<rparr>"

text \<open>
  \<open>extract_bot_attributes(config)\<close>, for \<open>config\<close> a dictionary as its annotation says:
  \<open>if "data" in config and "attributes" in config.get("data", {}): return
  config["data"]["attributes"]\<close>, else \<open>config\<close>.
\<close>

definition extract_bot_attributes :: "(pystr \<times> json) list \<Rightarrow> error + json" where
  "extract_bot_attributes config =
     (case map_of config (ustr ''data'') of
        None \<Rightarrow> Inr (JObj config)
      | Some d \<Rightarrow>
          bindE (py_contains d (ustr ''attributes'')) (\<lambda>has.
            if has then py_getitem d (ustr ''attributes'') else Inr (JObj config)))"

definition set_config_attr ::
  "ElementExtractor \<Rightarrow> (pystr \<times> json) list \<Rightarrow> error + ElementExtractor" where
  "set_config_attr self config =
     bindE (extract_bot_attributes config) (\<lambda>a. Inr (self\<lparr>config_attrs := a\<rparr>))"

text \<open>The list a loop \<open>for x in d.get(key, [])\<close> runs over.\<close>

definition get_list :: "json \<Rightarrow> pystr \<Rightarrow> error + json list" where
  "get_list d k = bindE (dict_get d k (JArr [])) py_iter"

text \<open>The two lines that open every loop over the scenarios:
  \<open>scenario.get("slug", scenario.get("name", ""))\<close> and \<open>scenario.get("name", "")\<close>.\<close>

definition scenario_slug_name :: "json \<Rightarrow> error + json \<times> json" where
  "scenario_slug_name scenario =
     bindE (dict_get scenario (ustr ''name'') (JStr [])) (\<lambda>dflt.
     bindE (dict_get scenario (ustr ''slug'') dflt) (\<lambda>slug.
     bindE (dict_get scenario (ustr ''name'') (JStr [])) (\<lambda>name.
     Inr (slug, name))))"

text \<open>\<open>extract_blocks\<close>: the body of the innermost loop, the loop over the nodes of
  one scenario, the loop over the scenarios.\<close>

definition block_info ::
  "(json \<Rightarrow> pystr) \<Rightarrow> nat \<Rightarrow> json \<Rightarrow> json \<Rightarrow> json \<Rightarrow> json \<Rightarrow> nat \<times> json \<Rightarrow> error + BlockInfo"
  where
  "block_info R s_idx scenario_slug scenario_name node_id node_name ib =
     (case ib of (b_idx, block) \<Rightarrow>
        bindE (dict_get block (ustr ''type'') (JStr (ustr ''unknown''))) (\<lambda>t.
        bindE (dict_get block (ustr ''id'') (JStr (ustr ''block_'' @ str_nat b_idx))) (\<lambda>bid.
        Inr \<lparr>b_path = ustr ''scenarios['' @ str_nat s_idx @ ustr ''].nodes[''
                        @ py_format R node_id @ ustr ''].blocks['' @ str_nat b_idx @ ustr '']'',
             b_type = t,
             b_data = block,
             b_scenario_slug = scenario_slug,
             b_scenario_name = scenario_name,
             b_node_id = node_id,
             b_node_name = node_name,
             b_block_id = bid\<rparr>)))"

definition node_block_infos ::
  "(json \<Rightarrow> pystr) \<Rightarrow> nat \<Rightarrow> json \<Rightarrow> json \<Rightarrow> json \<Rightarrow> error + BlockInfo list" where
  "node_block_infos R s_idx scenario_slug scenario_name node =
     bindE (dict_get node (ustr ''id'') (JStr [])) (\<lambda>node_id.
     bindE (dict_get node (ustr ''name'') (JStr [])) (\<lambda>node_name.
     bindE (get_list node (ustr ''blocks'')) (\<lambda>blocks.
     mapE (block_info R s_idx scenario_slug scenario_name node_id node_name)
       (List.enumerate 0 blocks))))"

definition scenario_block_infos ::
  "(json \<Rightarrow> pystr) \<Rightarrow> nat \<times> json \<Rightarrow> error + BlockInfo list" where
  "scenario_block_infos R is =
     (case is of (s_idx, scenario) \<Rightarrow>
        bindE (scenario_slug_name scenario) (\<lambda>(scenario_slug, scenario_name).
        bindE (get_list scenario (ustr ''nodes'')) (\<lambda>nodes.
        bindE (mapE (node_block_infos R s_idx scenario_slug scenario_name) nodes) (\<lambda>bss.
        Inr (concat bss)))))"

definition extract_blocks :: "(json \<Rightarrow> pystr) \<Rightarrow> ElementExtractor \<Rightarrow> error + BlockInfo list"
  where
  "extract_blocks R self =
     bindE (get_list (config_attrs self) (ustr ''scenarios'')) (\<lambda>scenarios.
     bindE (mapE (scenario_block_infos R) (List.enumerate 0 scenarios)) (\<lambda>bss.
     Inr (concat bss)))"

text \<open>\<open>extract_blocks_by_type\<close>: \<open>[b for b in self.extract_blocks() if b.type ==
  block_type]\<close>.\<close>

definition extract_blocks_by_type ::
  "(json \<Rightarrow> pystr) \<Rightarrow> ElementExtractor \<Rightarrow> pystr \<Rightarrow> error + BlockInfo list" where
  "extract_blocks_by_type R self block_type =
     bindE (extract_blocks R self) (\<lambda>blocks.
     Inr (filter (\<lambda>b. py_eq (b_type b) (JStr block_type)) blocks))"

text \<open>\<open>extract_entry_edges\<close>.\<close>

definition entry_edge_info :: "nat \<Rightarrow> json \<Rightarrow> json \<Rightarrow> nat \<times> json \<Rightarrow> error + EntryEdgeInfo"
  where
  "entry_edge_info s_idx scenario_slug scenario_name ie =
     (case ie of (e_idx, edge) \<Rightarrow>
        bindE (dict_get edge (ustr ''type'') (JStr (ustr ''unknown''))) (\<lambda>t.
        bindE (dict_get edge (ustr ''value'') (JStr [])) (\<lambda>v.
        bindE (dict_get edge (ustr ''target_node_id'') (JStr [])) (\<lambda>target.
        bindE (dict_get edge (ustr ''id'') JNull) (\<lambda>eid.
        bindE (dict_get edge (ustr ''name'') JNull) (\<lambda>nm.
        Inr \<lparr>e_path = ustr ''scenarios['' @ str_nat s_idx @ ustr ''].entry_edges[''
                        @ str_nat e_idx @ ustr '']'',
             e_type = t,
             e_pattern = v,
             e_target_node_id = target,
             e_scenario_slug = scenario_slug,
             e_scenario_name = scenario_name,
             e_edge_id = eid,
             e_name = nm\<rparr>))))))"

definition scenario_entry_edges :: "nat \<times> json \<Rightarrow> error + EntryEdgeInfo list" where
  "scenario_entry_edges is =
     (case is of (s_idx, scenario) \<Rightarrow>
        bindE (scenario_slug_name scenario) (\<lambda>(scenario_slug, scenario_name).
        bindE (get_list scenario (ustr ''entry_edges'')) (\<lambda>edges.
        mapE (entry_edge_info s_idx scenario_slug scenario_name) (List.enumerate 0 edges))))"

definition extract_entry_edges :: "ElementExtractor \<Rightarrow> error + EntryEdgeInfo list" where
  "extract_entry_edges self =
     bindE (get_list (config_attrs self) (ustr ''scenarios'')) (\<lambda>scenarios.
     bindE (mapE scenario_entry_edges (List.enumerate 0 scenarios)) (\<lambda>ess.
     Inr (concat ess)))"

definition extract_entry_edges_by_type ::
  "ElementExtractor \<Rightarrow> pystr \<Rightarrow> error + EntryEdgeInfo list" where
  "extract_entry_edges_by_type self edge_type =
     bindE (extract_entry_edges self) (\<lambda>edges.
     Inr (filter (\<lambda>e. py_eq (e_type e) (JStr edge_type)) edges))"

text \<open>
  \<open>extract_nodes\<close>. For every node the whole block extraction runs again, and the
  node keeps the blocks \<open>b\<close> with \<open>b.node_id == node.get("id")\<close>: the comparison reads
  the id without a default, the record's \<open>node_id\<close> reads it with the default \<open>""\<close>.
\<close>

definition node_info ::
  "(json \<Rightarrow> pystr) \<Rightarrow> ElementExtractor \<Rightarrow> nat \<Rightarrow> json \<Rightarrow> json \<Rightarrow> nat \<times> json
     \<Rightarrow> error + NodeInfo" where
  "node_info R self s_idx scenario_slug scenario_name inode =
     (case inode of (n_idx, node) \<Rightarrow>
        bindE (extract_blocks R self) (\<lambda>blocks.
        bindE (dict_get node (ustr ''id'') JNull) (\<lambda>cmp_id.
        bindE (dict_get node (ustr ''id'') (JStr [])) (\<lambda>node_id.
        bindE (dict_get node (ustr ''name'') (JStr [])) (\<lambda>node_name.
        bindE (dict_get node (ustr ''next_node_id'') JNull) (\<lambda>next_id.
        Inr \<lparr>n_path = ustr ''scenarios['' @ str_nat s_idx @ ustr ''].nodes[''
                        @ str_nat n_idx @ ustr '']'',
             n_node_id = node_id,
             n_name = node_name,
             n_scenario_slug = scenario_slug,
             n_scenario_name = scenario_name,
             n_blocks = filter (\<lambda>b. py_eq (b_node_id b) cmp_id) blocks,
             n_next_node_id = next_id\<rparr>))))))"

definition scenario_node_infos ::
  "(json \<Rightarrow> pystr) \<Rightarrow> ElementExtractor \<Rightarrow> nat \<times> json \<Rightarrow> error + NodeInfo list" where
  "scenario_node_infos R self is =
     (case is of (s_idx, scenario) \<Rightarrow>
        bindE (scenario_slug_name scenario) (\<lambda>(scenario_slug, scenario_name).
        bindE (get_list scenario (ustr ''nodes'')) (\<lambda>nodes.
        mapE (node_info R self s_idx scenario_slug scenario_name) (List.enumerate 0 nodes))))"

definition extract_nodes :: "(json \<Rightarrow> pystr) \<Rightarrow> ElementExtractor \<Rightarrow> error + NodeInfo list"
  where
  "extract_nodes R self =
     bindE (get_list (config_attrs self) (ustr ''scenarios'')) (\<lambda>scenarios.
     bindE (mapE (scenario_node_infos R self) (List.enumerate 0 scenarios)) (\<lambda>nss.
     Inr (concat nss)))"

text \<open>\<open>extract_scenarios\<close>: for every scenario both full extractions run again and
  are filtered by \<open>scenario_slug == slug\<close>.\<close>

definition scenario_info ::
  "(json \<Rightarrow> pystr) \<Rightarrow> ElementExtractor \<Rightarrow> nat \<times> json \<Rightarrow> error + ScenarioInfo" where
  "scenario_info R self is =
     (case is of (s_idx, scenario) \<Rightarrow>
        bindE (scenario_slug_name scenario) (\<lambda>(slug, name).
        bindE (extract_entry_edges self) (\<lambda>all_edges.
        bindE (extract_nodes R self) (\<lambda>all_nodes.
        bindE (dict_get scenario (ustr ''id'') JNull) (\<lambda>sid.
        bindE (dict_get scenario (ustr ''parent_scenario_id'') JNull) (\<lambda>parent.
        Inr \<lparr>s_path = ustr ''scenarios['' @ str_nat s_idx @ ustr '']'',
             s_scenario_id = sid,
             s_name = name,
             s_slug = slug,
             s_parent_scenario_id = parent,
             s_entry_edges = filter (\<lambda>e. py_eq (e_scenario_slug e) slug) all_edges,
             s_nodes = filter (\<lambda>n. py_eq (n_scenario_slug n) slug) all_nodes\<rparr>))))))"

definition extract_scenarios ::
  "(json \<Rightarrow> pystr) \<Rightarrow> ElementExtractor \<Rightarrow> error + ScenarioInfo list" where
  "extract_scenarios R self =
     bindE (get_list (config_attrs self) (ustr ''scenarios'')) (\<lambda>scenarios.
     mapE (scenario_info R self) (List.enumerate 0 scenarios))"

text \<open>
  A Python \<open>set\<close> of hashable values, as the list of its elements in the order they
  were added: \<open>add\<close> keeps the set when an equal element is there already, and raises
  \<open>TypeError\<close> for a list or a dictionary, which cannot be hashed.
\<close>

fun hashable :: "json \<Rightarrow> bool" where
  "hashable (JArr xs) = False"
| "hashable (JObj kvs) = False"
| "hashable _ = True"

definition py_set_add :: "json \<Rightarrow> json list \<Rightarrow> error + json list" where
  "py_set_add x S =
     (if hashable x then Inr (if \<exists>y \<in> set S. py_eq y x then S else S @ [x])
      else Inl TypeError)"

text \<open>\<open>get_all_scenario_ids\<close>: the comprehension
  \<open>{s.get("id") for s in self.config_attrs.get("scenarios", []) if "id" in s}\<close>; the
  first argument is the set built so far.\<close>

fun scenario_ids_from :: "json list \<Rightarrow> json list \<Rightarrow> error + json list" where
  "scenario_ids_from S [] = Inr S"
| "scenario_ids_from S (s # ss) =
     bindE (py_contains s (ustr ''id'')) (\<lambda>has.
       if has
       then bindE (dict_get s (ustr ''id'') JNull) (\<lambda>v.
            bindE (py_set_add v S) (\<lambda>S'. scenario_ids_from S' ss))
       else scenario_ids_from S ss)"

definition get_all_scenario_ids :: "ElementExtractor \<Rightarrow> error + json list" where
  "get_all_scenario_ids self =
     bindE (get_list (config_attrs self) (ustr ''scenarios'')) (\<lambda>scenarios.
     scenario_ids_from [] scenarios)"

section \<open>The coverage tracker (\<open>bot_testing/coverage/tracker.py\<close>)\<close>

text \<open>
  \<open>tested_elements\<close> is a set of keys, \<open>test_results\<close> a \<open>defaultdict(list)\<close> from
  keys to the list of the records \<open>{"passed": passed}\<close>. Reading a key that the
  dictionary does not hold gives the empty list.
\<close>

record test_result =
  passed :: bool

record CoverageTracker =
  tested_elements :: "pystr fset"
  test_results :: "pystr \<rightharpoonup> test_result list"

definition CoverageTracker_init :: CoverageTracker where
  "CoverageTracker_init = \<lparr>tested_elements = {||}, test_results = Map.empty\<rparr>"

definition history :: "CoverageTracker \<Rightarrow> pystr \<Rightarrow> test_result list" where
  "history self key = (case test_results self key of None \<Rightarrow> [] | Some h \<Rightarrow> h)"

text \<open>The two statements that end each of the three \<open>mark\<close> methods:
  \<open>self.tested_elements.add(key)\<close> and \<open>self.test_results[key].append(...)\<close>.\<close>

definition mark_key :: "CoverageTracker \<Rightarrow> pystr \<Rightarrow> bool \<Rightarrow> CoverageTracker" where
  "mark_key self key p =
     self\<lparr>tested_elements := finsert key (tested_elements self),
          test_results := (test_results self)(key \<mapsto> history self key @ [\<lparr>passed = p\<rparr>])\<rparr>"

definition mark_block_tested :: "CoverageTracker \<Rightarrow> pystr \<Rightarrow> bool \<Rightarrow> CoverageTracker" where
  "mark_block_tested self block_path p = mark_key self (ustr ''block:'' @ block_path) p"

definition mark_edge_tested :: "CoverageTracker \<Rightarrow> pystr \<Rightarrow> bool \<Rightarrow> CoverageTracker" where
  "mark_edge_tested self edge_path p = mark_key self (ustr ''edge:'' @ edge_path) p"

definition mark_node_tested :: "CoverageTracker \<Rightarrow> pystr \<Rightarrow> bool \<Rightarrow> CoverageTracker" where
  "mark_node_tested self node_path p = mark_key self (ustr ''node:'' @ node_path) p"

text \<open>
  \<open>get_coverage_summary\<close>. The percentage is the integer \<open>0\<close> when the total is not
  positive and a floating-point number otherwise. Floating-point arithmetic is not
  modelled: \<open>percent tested total_elements\<close> stands for \<open>tested / total_elements * 100\<close> and
  \<open>round1\<close> for \<open>round(x, 1)\<close> on a float, both parameters; \<open>round(0, 1)\<close> on the
  integer is \<open>0\<close>.
\<close>

datatype 'f pynum = PyInt int | PyFloat 'f

record 'f coverage_summary =
  cs_total_elements :: int
  cs_tested_elements :: int
  cs_coverage_percent :: "'f pynum"
  cs_untested_elements :: int

fun py_round1 :: "('f \<Rightarrow> 'f) \<Rightarrow> 'f pynum \<Rightarrow> 'f pynum" where
  "py_round1 round1 (PyInt i) = PyInt i"
| "py_round1 round1 (PyFloat x) = PyFloat (round1 x)"

definition get_coverage_summary ::
  "(int \<Rightarrow> int \<Rightarrow> 'f) \<Rightarrow> ('f \<Rightarrow> 'f) \<Rightarrow> CoverageTracker \<Rightarrow> int \<Rightarrow> 'f coverage_summary" where
  "get_coverage_summary percent round1 self total_elements =
     (let tested = int (fcard (tested_elements self));
          coverage = (if total_elements > 0 then PyFloat (percent tested total_elements) else PyInt 0)
      in \<lparr>cs_total_elements = total_elements,
          cs_tested_elements = tested,
          cs_coverage_percent = py_round1 round1 coverage,
          cs_untested_elements = total_elements - tested\<rparr>)"

section \<open>Dynamic parametrization (\<open>tests/conftest.py\<close>)\<close>

text \<open>
  The character class of the regex in \<open>_make_test_id\<close>: \<open>\w\<close> and three ranges of Cyrillic letters. In a \<open>str\<close> pattern \<open>\w\<close>
  matches the ASCII letters, digits and the underscore, and every other character that
  the Unicode database calls alphanumeric; that table is the parameter \<open>W\<close>, asked for
  code points from 128 on. The class adds the letters \<open>U+0430\<close> to \<open>U+044F\<close>,
  \<open>U+0410\<close> to \<open>U+042F\<close>, \<open>U+0451\<close> and \<open>U+0401\<close>.
\<close>

definition is_word :: "(nat \<Rightarrow> bool) \<Rightarrow> nat \<Rightarrow> bool" where
  "is_word W c \<longleftrightarrow> (48 \<le> c \<and> c \<le> 57) \<or> (65 \<le> c \<and> c \<le> 90) \<or> (97 \<le> c \<and> c \<le> 122)
     \<or> c = 95 \<or> (128 \<le> c \<and> W c)"

definition in_id_class :: "(nat \<Rightarrow> bool) \<Rightarrow> nat \<Rightarrow> bool" where
  "in_id_class W c \<longleftrightarrow> is_word W c \<or> (1072 \<le> c \<and> c \<le> 1103) \<or> (1040 \<le> c \<and> c \<le> 1071)
     \<or> c = 1105 \<or> c = 1025"

text \<open>\<open>re.findall\<close> for a regex \<open>c+\<close>: the maximal runs of characters that \<open>c\<close>
  matches. The second argument is the run read so far.\<close>

fun find_runs :: "(nat \<Rightarrow> bool) \<Rightarrow> pystr \<Rightarrow> pystr \<Rightarrow> pystr list" where
  "find_runs P w [] = (if w = [] then [] else [w])"
| "find_runs P w (c # cs) =
     (if P c then find_runs P (w @ [c]) cs
      else if w = [] then find_runs P [] cs else w # find_runs P [] cs)"

text \<open>\<open>_make_test_id(pattern, index)\<close>; \<open>re.findall\<close> raises \<open>TypeError\<close> when the
  pattern of the edge is not a string.\<close>

definition make_test_id :: "(nat \<Rightarrow> bool) \<Rightarrow> json \<Rightarrow> nat \<Rightarrow> error + pystr" where
  "make_test_id W pattern index =
     (case pattern of
        JStr p \<Rightarrow>
          (let words = find_runs (in_id_class W) [] p in
           if words \<noteq> []
           then Inr (ustr ''match_'' @ str_nat index @ ustr ''_''
                     @ take 50 (py_join (ustr ''_'') (take 3 words)))
           else Inr (ustr ''match_'' @ str_nat index @ ustr ''_pattern''))
      | _ \<Rightarrow> Inl TypeError)"

text \<open>
  A call \<open>metafunc.parametrize(argname, argvalues, ids=...)\<close>. An argument value is an
  extracted edge, an extracted scenario, or \<open>pytest.param(None,
  marks=pytest.mark.skip(reason))\<close>: one test case that is skipped with that reason.
\<close>

datatype argvalue =
    EdgeValue EntryEdgeInfo
  | ScenarioValue ScenarioInfo
  | SkippedNone pystr

record parametrize_call =
  argname :: pystr
  argvalues :: "argvalue list"
  ids :: "json list option"

text \<open>The part of \<open>pytest_generate_tests\<close> for the fixture \<open>match_edge\<close>.\<close>

definition parametrize_match_edge ::
  "(nat \<Rightarrow> bool) \<Rightarrow> ElementExtractor \<Rightarrow> error + parametrize_call list" where
  "parametrize_match_edge W extractor =
     bindE (extract_entry_edges_by_type extractor (ustr ''match'')) (\<lambda>edges.
       if edges \<noteq> []
       then bindE (mapE (\<lambda>(i, e). make_test_id W (e_pattern e) i) (List.enumerate 0 edges))
              (\<lambda>test_ids.
                Inr [\<lparr>argname = ustr ''match_edge'',
                      argvalues = map EdgeValue edges,
                      ids = Some (map JStr test_ids)\<rparr>])
       else Inr [\<lparr>argname = ustr ''match_edge'',
                  argvalues = [SkippedNone (ustr ''No match edges'')],
                  ids = None\<rparr>])"

text \<open>The part for the fixture \<open>buttons_scenario\<close>: a scenario qualifies when one of
  its nodes has a block of type \<open>buttons\<close>.\<close>

definition has_buttons :: "ScenarioInfo \<Rightarrow> bool" where
  "has_buttons scenario \<longleftrightarrow>
     (\<exists>node \<in> set (s_nodes scenario).
        \<exists>b \<in> set (n_blocks node). py_eq (b_type b) (JStr (ustr ''buttons'')))"

definition parametrize_buttons_scenario ::
  "(json \<Rightarrow> pystr) \<Rightarrow> ElementExtractor \<Rightarrow> error + parametrize_call list" where
  "parametrize_buttons_scenario R extractor =
     bindE (extract_scenarios R extractor) (\<lambda>scenarios.
       let scenarios_with_buttons = filter has_buttons scenarios in
       if scenarios_with_buttons \<noteq> []
       then Inr [\<lparr>argname = ustr ''buttons_scenario'',
                  argvalues = map ScenarioValue scenarios_with_buttons,
                  ids = Some (map s_slug scenarios_with_buttons)\<rparr>]
       else Inr [\<lparr>argname = ustr ''buttons_scenario'',
                  argvalues = [SkippedNone (ustr ''No buttons blocks'')],
                  ids = None\<rparr>])"

text \<open>
  \<open>pytest_generate_tests(metafunc)\<close>. Its inputs are what \<open>_load_bot_config\<close> returned
  (\<open>None\<close> or the loaded dictionary) and \<open>metafunc.fixturenames\<close>; its result is the list
  of the \<open>parametrize\<close> calls it made. \<open>if not config: return\<close> leaves at once for
  \<open>None\<close> and for the empty dictionary.
\<close>

definition pytest_generate_tests ::
  "(json \<Rightarrow> pystr) \<Rightarrow> (nat \<Rightarrow> bool) \<Rightarrow> (pystr \<times> json) list option \<Rightarrow> pystr list
     \<Rightarrow> error + parametrize_call list" where
  "pytest_generate_tests R W config fixturenames =
     (case config of
        None \<Rightarrow> Inr []
      | Some cfg \<Rightarrow>
          if cfg = [] then Inr []
          else
            bindE (set_config_attr ElementExtractor_init cfg) (\<lambda>extractor.
            bindE (if ustr ''match_edge'' \<in> set fixturenames
                   then parametrize_match_edge W extractor else Inr []) (\<lambda>calls1.
            bindE (if ustr ''buttons_scenario'' \<in> set fixturenames
                   then parametrize_buttons_scenario R extractor else Inr []) (\<lambda>calls2.
            Inr (calls1 @ calls2)))))"

text \<open>The test cases that a list of calls registers for one argument name.\<close>

definition cases_for :: "pystr \<Rightarrow> parametrize_call list \<Rightarrow> argvalue list" where
  "cases_for name calls = concat (map argvalues (filter (\<lambda>c. argname c = name) calls))"

section \<open>Calls, well-formed configurations, sample configurations\<close>




text \<open>
  The shape the extraction loops rely on: the scenarios, their nodes and entry edges and
  the blocks of the nodes are lists of dictionaries (a missing list counts as empty).
  The fields of these dictionaries are not restricted.
\<close>

fun is_dict :: "json \<Rightarrow> bool" where
  "is_dict (JObj kvs) = True"
| "is_dict _ = False"

definition dicts_at :: "(json \<Rightarrow> bool) \<Rightarrow> json \<Rightarrow> pystr \<Rightarrow> bool" where
  "dicts_at ok d k = (case get_list d k of Inr xs \<Rightarrow> list_all ok xs | Inl e \<Rightarrow> False)"

definition wf_node :: "json \<Rightarrow> bool" where
  "wf_node node \<longleftrightarrow> is_dict node \<and> dicts_at is_dict node (ustr ''blocks'')"

definition wf_scenario :: "json \<Rightarrow> bool" where
  "wf_scenario scenario \<longleftrightarrow>
     is_dict scenario \<and> dicts_at wf_node scenario (ustr ''nodes'')
     \<and> dicts_at is_dict scenario (ustr ''entry_edges'')"

definition wf_attrs :: "json \<Rightarrow> bool" where
  "wf_attrs attrs \<longleftrightarrow> is_dict attrs \<and> dicts_at wf_scenario attrs (ustr ''scenarios'')"

text \<open>A configuration whose only node has one block and no \<open>id\<close> field.\<close>

definition idless_node_config :: "(pystr \<times> json) list" where
  "idless_node_config =
     [(ustr ''scenarios'',
       JArr [JObj [(ustr ''nodes'',
         JArr [JObj [(ustr ''blocks'',
           JArr [JObj [(ustr ''type'', JStr (ustr ''answer''))]])]])]])]"

text \<open>A configuration of three scenarios. The first two have the derived slug \<open>s\<close>,
  the first as its \<open>slug\<close> field, the second as its \<open>name\<close>; the third has the slug
  \<open>t\<close>. Each has one entry edge and one node.\<close>

definition shared_slug_scenarios :: "json list" where
  "shared_slug_scenarios =
     [JObj [(ustr ''slug'', JStr (ustr ''s'')),
            (ustr ''name'', JStr (ustr ''A'')),
            (ustr ''entry_edges'',
               JArr [JObj [(ustr ''type'', JStr (ustr ''match'')),
                           (ustr ''value'', JStr (ustr ''hi''))]]),
            (ustr ''nodes'', JArr [JObj [(ustr ''id'', JStr (ustr ''n1''))]])],
      JObj [(ustr ''name'', JStr (ustr ''s'')),
            (ustr ''entry_edges'',
               JArr [JObj [(ustr ''type'', JStr (ustr ''event'')),
                           (ustr ''value'', JStr (ustr ''init''))]]),
            (ustr ''nodes'', JArr [JObj [(ustr ''id'', JStr (ustr ''n2''))]])],
      JObj [(ustr ''slug'', JStr (ustr ''t'')),
            (ustr ''entry_edges'',
               JArr [JObj [(ustr ''type'', JStr (ustr ''match'')),
                           (ustr ''value'', JStr (ustr ''bye''))]]),
            (ustr ''nodes'', JArr [JObj [(ustr ''id'', JStr (ustr ''n3''))]])]]"

definition shared_slug_extractor :: ElementExtractor where
  "shared_slug_extractor =
     \<lparr>config_attrs = JObj [(ustr ''scenarios'', JArr shared_slug_scenarios)]\<rparr>"

text \<open>Three scenarios, the middle one without an \<open>id\<close> field but with a name, an
  entry edge and a node, and the same configuration without the middle one.\<close>

definition idless_scenario :: "(pystr \<times> json) list" where
  "idless_scenario =
     [(ustr ''name'', JStr (ustr ''b'')),
      (ustr ''entry_edges'',
         JArr [JObj [(ustr ''type'', JStr (ustr ''event'')),
                     (ustr ''value'', JStr (ustr ''init''))]]),
      (ustr ''nodes'', JArr [JObj [(ustr ''id'', JStr (ustr ''n''))]])]"

definition idless_scenario_extractor :: ElementExtractor where
  "idless_scenario_extractor =
     \<lparr>config_attrs = JObj [(ustr ''scenarios'',
        JArr [JObj [(ustr ''id'', JStr (ustr ''a''))],
              JObj idless_scenario,
              JObj [(ustr ''id'', JStr (ustr ''c''))]])]\<rparr>"

definition without_idless_extractor :: ElementExtractor where
  "without_idless_extractor =
     \<lparr>config_attrs = JObj [(ustr ''scenarios'',
        JArr [JObj [(ustr ''id'', JStr (ustr ''a''))],
              JObj [(ustr ''id'', JStr (ustr ''c''))]])]\<rparr>"

text \<open>The three patterns of the specification's example, the second and third in
  Cyrillic letters: \<open>privet\<close>, \<open>/start\<close> and \<open>pomoshch sovet\<close> in transliteration.\<close>

definition pattern_privet :: pystr where
  "pattern_privet = [1087, 1088, 1080, 1074, 1077, 1090]"

definition pattern_pomoshch_sovet :: pystr where
  "pattern_pomoshch_sovet =
     [1087, 1086, 1084, 1086, 1097, 1100, 32, 1089, 1086, 1074, 1077, 1090]"

definition match_edge_json :: "pystr \<Rightarrow> json" where
  "match_edge_json p = JObj [(ustr ''type'', JStr (ustr ''match'')), (ustr ''value'', JStr p)]"

text \<open>A configuration with these three match edges and an event edge between them, and
  a configuration with an event edge only.\<close>

definition three_match_config :: "(pystr \<times> json) list" where
  "three_match_config =
     [(ustr ''scenarios'',
       JArr [JObj [(ustr ''entry_edges'',
         JArr [match_edge_json pattern_privet,
               JObj [(ustr ''type'', JStr (ustr ''event'')), (ustr ''value'', JStr (ustr ''init''))],
               match_edge_json (ustr ''/start''),
               match_edge_json pattern_pomoshch_sovet])]])]"

definition event_only_config :: "(pystr \<times> json) list" where
  "event_only_config =
     [(ustr ''scenarios'',
       JArr [JObj [(ustr ''entry_edges'',
         JArr [JObj [(ustr ''type'', JStr (ustr ''event'')),
                     (ustr ''value'', JStr (ustr ''init''))]])]])]"

text \<open>The record that \<open>extract_entry_edges\<close> builds for an edge of the first scenario
  that has only a type and a value.\<close>

definition sample_edge_info :: "nat \<Rightarrow> pystr \<Rightarrow> pystr \<Rightarrow> EntryEdgeInfo" where
  "sample_edge_info e_idx t p =
     \<lparr>e_path = ustr ''scenarios[0].entry_edges['' @ str_nat e_idx @ ustr '']'',
      e_type = JStr t,
      e_pattern = JStr p,
      e_target_node_id = JStr [],
      e_scenario_slug = JStr [],
      e_scenario_name = JStr [],
      e_edge_id = JNull,
      e_name = JNull\<rparr>"

section \<open>The pattern-to-probe converter\<close>

lemmas converter_defs =
  regex_to_sample_message_def ustr_def strip_anchors_def py_lstrip_def py_rstrip_def
  split_first_def apply_replacements_def replacements_def is_space_def py_split_def
  py_strip_def

text \<open>
  Claim C1. The docstring of \<open>regex_to_sample_message\<close> and the specification give the
  results \<open>/start\<close>, \<open>help\<close>, \<open>test value\<close>, \<open>test\<close> and \<open>1\<close> for the five
  example patterns. The code returns something else for four of them: the second
  substitution, \<open>re.sub(r"\s*", " ", pattern)\<close>, matches the empty string before every
  character and puts a blank there, so the letters of the pattern come out separated by
  blanks, and the later substitutions for \<open>.*\<close> and \<open>\d+\<close> find nothing left to match.
  Only the empty pattern gives the documented result. (The Cyrillic alternatives of the
  first pattern are written as code points.)
\<close>

theorem regex_to_sample_message_examples:
  "regex_to_sample_message
     (ustr ''/start|'' @ [1085, 1072, 1095, 1072, 1090, 1100, 124,
                         1087, 1088, 1080, 1074, 1077, 1090]) = ustr ''/ s t a r t''
   \<and> regex_to_sample_message (ustr ''^help$'') = ustr ''h e l p''
   \<and> regex_to_sample_message (ustr ''test.*value'') = ustr ''t e s t * v a l u e''
   \<and> regex_to_sample_message [] = ustr ''test''
   \<and> regex_to_sample_message [92, 100, 43] = ustr ''d +''"
  by (simp add: converter_defs)

lemma dropWhile_replicate_split:
  assumes P: "\<And>x. P x \<Longrightarrow> x = c"
  shows "\<exists>n. s = replicate n c @ dropWhile P s"
proof (induction s)
  case Nil
  show ?case by simp
next
  case (Cons a s)
  then obtain n where n: "s = replicate n c @ dropWhile P s" by blast
  show ?case
  proof (cases "P a")
    case True
    then have "a = c" by (rule P)
    then have "a # s = replicate (Suc n) c @ dropWhile P (a # s)"
      using n True by simp
    then show ?thesis by blast
  next
    case False
    then have "a # s = replicate 0 c @ dropWhile P (a # s)" by simp
    then show ?thesis by blast
  qed
qed

lemma dropWhile_no_head:
  assumes "P c"
  shows "dropWhile P s \<noteq> c # r"
proof
  assume eq: "dropWhile P s = c # r"
  then have "dropWhile P s \<noteq> []" by simp
  then have "\<not> P (hd (dropWhile P s))" by (rule hd_dropWhile)
  with eq assms show False by simp
qed

lemma py_lstrip_split: "\<exists>n. s = replicate n c @ py_lstrip [c] s"
  unfolding py_lstrip_def by (rule dropWhile_replicate_split) simp

lemma py_rstrip_split: "\<exists>m. s = py_rstrip [c] s @ replicate m c"
proof -
  have "\<exists>m. rev s = replicate m c @ dropWhile (\<lambda>x. x \<in> set [c]) (rev s)"
    by (rule dropWhile_replicate_split) simp
  then obtain m where m: "rev s = replicate m c @ dropWhile (\<lambda>x. x \<in> set [c]) (rev s)"
    by blast
  have "s = rev (rev s)" by simp
  also have "\<dots> = rev (replicate m c @ dropWhile (\<lambda>x. x \<in> set [c]) (rev s))"
    using m by simp
  also have "\<dots> = py_rstrip [c] s @ replicate m c"
    unfolding py_rstrip_def by simp
  finally show ?thesis by blast
qed

lemma py_lstrip_no_head: "py_lstrip [c] s \<noteq> c # r"
  unfolding py_lstrip_def by (rule dropWhile_no_head) simp

lemma py_rstrip_no_last: "py_rstrip [c] s \<noteq> r @ [c]"
proof
  assume "py_rstrip [c] s = r @ [c]"
  then have "rev (py_rstrip [c] s) = rev (r @ [c])" by simp
  then have eq: "dropWhile (\<lambda>x. x \<in> set [c]) (rev s) = c # rev r"
    unfolding py_rstrip_def by simp
  have "dropWhile (\<lambda>x. x \<in> set [c]) (rev s) \<noteq> c # rev r"
    by (rule dropWhile_no_head) simp
  with eq show False by blast
qed

lemma py_rstrip_keeps_head:
  assumes "\<forall>r'. s \<noteq> a # r'"
  shows "py_rstrip [c] s \<noteq> a # r"
proof
  assume eq: "py_rstrip [c] s = a # r"
  obtain m where "s = py_rstrip [c] s @ replicate m c" using py_rstrip_split by blast
  then have "s = a # (r @ replicate m c)" using eq by simp
  then show False using assms by blast
qed

text \<open>
  Claim C2, as stated: the anchor-stripping step removes at most one leading \<open>^\<close> and at
  most one trailing \<open>$\<close>. It fails: \<open>lstrip("^")\<close> and \<open>rstrip("$")\<close> remove every
  leading caret and every trailing dollar sign, so \<open>^^a$$\<close> becomes \<open>a\<close> and not \<open>^a$\<close>.
\<close>

theorem strip_anchors_one_of_each_counterexample:
  "strip_anchors (ustr ''^^a$$'') = ustr ''a'' \<and> strip_anchors (ustr ''^^a$$'') \<noteq> ustr ''^a$''"
  by (simp add: strip_anchors_def py_lstrip_def py_rstrip_def ustr_def)

text \<open>
  Claim C2, amended: for every pattern the anchor-stripping step removes all leading
  \<open>^\<close> characters and all trailing \<open>$\<close> characters and nothing else. The pattern is
  some carets, the result, some dollar signs; the result does not begin with a caret and
  does not end with a dollar sign.
\<close>

theorem strip_anchors_removes_all:
  "(\<exists>n m. p = replicate n 94 @ strip_anchors p @ replicate m 36)
   \<and> (\<forall>r. strip_anchors p \<noteq> 94 # r) \<and> (\<forall>r. strip_anchors p \<noteq> r @ [36])"
proof -
  obtain n where n: "p = replicate n 94 @ py_lstrip [94] p"
    using py_lstrip_split by blast
  obtain m where m: "py_lstrip [94] p = strip_anchors p @ replicate m 36"
    unfolding strip_anchors_def using py_rstrip_split by blast
  have "p = replicate n 94 @ strip_anchors p @ replicate m 36"
    using n m by simp
  then have a: "\<exists>n m. p = replicate n 94 @ strip_anchors p @ replicate m 36" by blast
  have "\<forall>r'. py_lstrip [94] p \<noteq> 94 # r'" by (simp add: py_lstrip_no_head)
  then have b: "\<forall>r. strip_anchors p \<noteq> 94 # r"
    unfolding strip_anchors_def using py_rstrip_keeps_head by blast
  have c: "\<forall>r. strip_anchors p \<noteq> r @ [36]"
    unfolding strip_anchors_def by (simp add: py_rstrip_no_last)
  from a b c show ?thesis by blast
qed

section \<open>The coverage tracker\<close>

text \<open>
  Claim C7. For a freshly constructed, unmarked tracker, the coverage summary for a total
  of 0 has total 0, tested 0, coverage percent 0 (the integer) and untested 0. The
  division is not reached when the total is 0, whatever the tracker holds: the percentage
  is then the integer 0 and does not depend on the floating-point operations.
\<close>

theorem get_coverage_summary_zero_total:
  "get_coverage_summary percent round1 CoverageTracker_init 0
     = \<lparr>cs_total_elements = 0, cs_tested_elements = 0,
        cs_coverage_percent = PyInt 0, cs_untested_elements = 0\<rparr>
   \<and> cs_coverage_percent (get_coverage_summary percent round1 self 0) = PyInt 0"
  by (simp add: get_coverage_summary_def CoverageTracker_init_def Let_def)

lemma history_mark_key_same:
  "history (mark_key self key p) key = history self key @ [\<lparr>passed = p\<rparr>]"
  by (simp add: history_def mark_key_def)

lemma tested_mark_key:
  "tested_elements (mark_key self key p) = finsert key (tested_elements self)"
  by (simp add: mark_key_def)

text \<open>
  Claim C8, as stated: for every tracker state, after marking the same block path tested
  twice the history of that path has length 2. It fails for a tracker that has marked
  the path before: every mark appends, so after one earlier mark the history has
  length 3.
\<close>

theorem mark_block_tested_twice_counterexample:
  "length (history
     (mark_block_tested
        (mark_block_tested
           (mark_block_tested CoverageTracker_init (ustr ''p'') True) (ustr ''p'') True)
        (ustr ''p'') True)
     (ustr ''block:p'')) = 3
   \<and> length (history
     (mark_block_tested
        (mark_block_tested
           (mark_block_tested CoverageTracker_init (ustr ''p'') True) (ustr ''p'') True)
        (ustr ''p'') True)
     (ustr ''block:p'')) \<noteq> 2"
  by (simp add: mark_block_tested_def history_mark_key_same ustr_def)
     (simp add: history_def CoverageTracker_init_def)

text \<open>
  Claim C8, amended: for every tracker state and every block path, marking that path
  tested twice leaves exactly one entry for it in the tested-elements set (the set is the
  old one with the key \<open>block:path\<close> added, and the key counts once in its size), and
  appends two records to the history of that key. On a fresh tracker the tested count is
  then 1 and the history has length 2.
\<close>

theorem mark_block_tested_twice:
  "tested_elements (mark_block_tested (mark_block_tested self path p1) path p2)
     = finsert (ustr ''block:'' @ path) (tested_elements self)
   \<and> fcard (tested_elements (mark_block_tested (mark_block_tested self path p1) path p2))
     = Suc (fcard (tested_elements self |-| {|ustr ''block:'' @ path|}))
   \<and> history (mark_block_tested (mark_block_tested self path p1) path p2)
        (ustr ''block:'' @ path)
     = history self (ustr ''block:'' @ path) @ [\<lparr>passed = p1\<rparr>, \<lparr>passed = p2\<rparr>]
   \<and> fcard (tested_elements
        (mark_block_tested (mark_block_tested CoverageTracker_init path p1) path p2)) = 1
   \<and> length (history
        (mark_block_tested (mark_block_tested CoverageTracker_init path p1) path p2)
        (ustr ''block:'' @ path)) = 2"
proof -
  let ?key = "ustr ''block:'' @ path"
  have a: "tested_elements (mark_block_tested (mark_block_tested self path p1) path p2)
     = finsert ?key (tested_elements self)"
    by (simp add: mark_block_tested_def tested_mark_key)
  have b: "fcard (finsert ?key (tested_elements self))
     = Suc (fcard (tested_elements self |-| {|?key|}))"
    by (rule fcard_finsert)
  have c: "history (mark_block_tested (mark_block_tested self path p1) path p2) ?key
     = history self ?key @ [\<lparr>passed = p1\<rparr>, \<lparr>passed = p2\<rparr>]"
    by (simp add: mark_block_tested_def history_mark_key_same)
  have d: "fcard (tested_elements
        (mark_block_tested (mark_block_tested CoverageTracker_init path p1) path p2)) = 1"
    by (simp add: mark_block_tested_def tested_mark_key CoverageTracker_init_def
        fcard_finsert_if fcard_fempty)
  have e: "length (history
        (mark_block_tested (mark_block_tested CoverageTracker_init path p1) path p2) ?key) = 2"
    by (simp add: mark_block_tested_def history_mark_key_same)
       (simp add: history_def CoverageTracker_init_def)
  from a b c d e show ?thesis by simp
qed

section \<open>Lemmas on the extraction loops\<close>

lemma bindE_Inr [simp]: "bindE (Inr x) f = f x"
  by (simp add: bindE_def)

lemma bindE_Inl [simp]: "bindE (Inl e) f = Inl e"
  by (simp add: bindE_def)

lemma bindE_eq_Inr: "bindE m f = Inr y \<longleftrightarrow> (\<exists>x. m = Inr x \<and> f x = Inr y)"
  by (cases m) simp_all

lemma mapE_eq_Inr: "mapE f xs = Inr ys \<longleftrightarrow> list_all2 (\<lambda>x y. f x = Inr y) xs ys"
proof (induction xs arbitrary: ys)
  case Nil
  show ?case by auto
next
  case (Cons x xs)
  show ?case
    by (cases ys) (auto simp: bindE_eq_Inr Cons.IH)
qed

lemma mapE_total:
  assumes "\<And>x. x \<in> set xs \<Longrightarrow> \<exists>y. f x = Inr y"
  shows "\<exists>ys. mapE f xs = Inr ys"
  using assms
proof (induction xs)
  case Nil
  show ?case by simp
next
  case (Cons x xs)
  from Cons.prems obtain y where y: "f x = Inr y" by auto
  from Cons obtain ys where ys: "mapE f xs = Inr ys" by auto
  show ?case using y ys by simp
qed

lemmas extractor_defs =
  extract_bot_attributes_def set_config_attr_def get_list_def scenario_slug_name_def
  block_info_def node_block_infos_def scenario_block_infos_def extract_blocks_def
  node_info_def scenario_node_infos_def extract_nodes_def ElementExtractor_init_def

lemma str_nat_0 [simp]: "str_nat 0 = [48]"
  by (simp add: str_nat.simps)


lemma py_eq_JObj:
  "py_eq (JObj a) (JObj b) \<longleftrightarrow>
     fst ` set a = fst ` set b \<and>
     (\<forall>k v. map_of a k = Some v \<longrightarrow> (\<exists>w. map_of b k = Some w \<and> py_eq v w))"
proof -
  have "(\<forall>k \<in> set (map fst a).
           case map_of a k of None \<Rightarrow> False
           | Some v \<Rightarrow> (case map_of b k of None \<Rightarrow> False | Some w \<Rightarrow> py_eq v w))
        \<longleftrightarrow> (\<forall>k v. map_of a k = Some v \<longrightarrow> (\<exists>w. map_of b k = Some w \<and> py_eq v w))"
    (is "?L \<longleftrightarrow> ?R")
  proof
    assume L: ?L
    show ?R
    proof (intro allI impI)
      fix k v assume v: "map_of a k = Some v"
      then have "(k, v) \<in> set a" by (rule map_of_SomeD)
      then have "k \<in> set (map fst a)" by force
      with L have "case map_of a k of None \<Rightarrow> False
           | Some v \<Rightarrow> (case map_of b k of None \<Rightarrow> False | Some w \<Rightarrow> py_eq v w)"
        by blast
      with v show "\<exists>w. map_of b k = Some w \<and> py_eq v w"
        by (simp split: option.splits)
    qed
  next
    assume R: ?R
    show ?L
    proof
      fix k assume "k \<in> set (map fst a)"
      then have "map_of a k \<noteq> None" by (simp add: map_of_eq_None_iff)
      then obtain v where v: "map_of a k = Some v" by blast
      with R obtain w where "map_of b k = Some w" and "py_eq v w" by blast
      with v show "case map_of a k of None \<Rightarrow> False
           | Some v \<Rightarrow> (case map_of b k of None \<Rightarrow> False | Some w \<Rightarrow> py_eq v w)"
        by simp
    qed
  qed
  then show ?thesis by simp
qed

lemma py_eq_JObj_left: "py_eq (JObj a) y \<Longrightarrow> \<exists>b. y = JObj b"
  by (cases y) simp_all

lemma py_eq_JArr_left: "py_eq (JArr xs) y \<Longrightarrow> \<exists>ys. y = JArr ys \<and> list_all2 py_eq xs ys"
  by (cases y) simp_all

lemma py_eq_refl: "py_eq x x"
proof (induction x)
  case (JArr xs)
  then show ?case by (simp add: list_all2_same)
next
  case (JObj kvs)
  have "\<forall>k v. map_of kvs k = Some v \<longrightarrow> (\<exists>w. map_of kvs k = Some w \<and> py_eq v w)"
  proof (intro allI impI)
    fix k v assume v: "map_of kvs k = Some v"
    then have "(k, v) \<in> set kvs" by (rule map_of_SomeD)
    then have "py_eq v v" using JObj.IH by fastforce
    with v show "\<exists>w. map_of kvs k = Some w \<and> py_eq v w" by simp
  qed
  then show ?case unfolding py_eq_JObj by simp
qed simp_all

lemma py_eq_sym: "py_eq x y \<Longrightarrow> py_eq y x"
proof (induction x arbitrary: y)
  case JNull
  then show ?case by simp
next
  case (JBool a)
  then show ?case by auto
next
  case (JInt m)
  then show ?case by auto
next
  case (JStr s)
  then show ?case by simp
next
  case (JArr xs)
  from JArr.prems obtain ys where y: "y = JArr ys" and l: "list_all2 py_eq xs ys"
    using py_eq_JArr_left by blast
  have "list_all2 py_eq ys xs"
    unfolding list_all2_conv_all_nth
  proof (intro conjI allI impI)
    show "length ys = length xs" using l by (simp add: list_all2_lengthD)
  next
    fix i assume i: "i < length ys"
    then have "i < length xs" using l by (simp add: list_all2_lengthD)
    then have "xs ! i \<in> set xs" and "py_eq (xs ! i) (ys ! i)"
      using l by (simp_all add: list_all2_nthD)
    then show "py_eq (ys ! i) (xs ! i)" using JArr.IH by blast
  qed
  then show ?case using y by simp
next
  case (JObj a)
  from JObj.prems obtain b where y: "y = JObj b"
    using py_eq_JObj_left by blast
  from JObj.prems have keys: "fst ` set a = fst ` set b"
    and vals: "\<And>k v. map_of a k = Some v \<Longrightarrow> \<exists>w. map_of b k = Some w \<and> py_eq v w"
    unfolding y py_eq_JObj by blast+
  have "\<forall>k w. map_of b k = Some w \<longrightarrow> (\<exists>v. map_of a k = Some v \<and> py_eq w v)"
  proof (intro allI impI)
    fix k w assume w: "map_of b k = Some w"
    then have "(k, w) \<in> set b" by (rule map_of_SomeD)
    then have "k \<in> fst ` set a" using keys by force
    then have "map_of a k \<noteq> None" by (simp add: map_of_eq_None_iff)
    then obtain v where v: "map_of a k = Some v" by blast
    from vals[OF v] w have vw: "py_eq v w" by simp
    from v have "(k, v) \<in> set a" by (rule map_of_SomeD)
    then have "py_eq w v" using JObj.IH vw by fastforce
    with v show "\<exists>v. map_of a k = Some v \<and> py_eq w v" by simp
  qed
  then show ?case unfolding y py_eq_JObj using keys by simp
qed

lemma dict_get_total: "is_dict v \<Longrightarrow> \<exists>x. dict_get v k d = Inr x"
  by (cases v) simp_all

lemma dict_get_Inr_is_dict: "dict_get v k d = Inr x \<Longrightarrow> is_dict v"
  by (cases v) simp_all

lemma scenario_slug_name_total: "is_dict sc \<Longrightarrow> \<exists>slug name. scenario_slug_name sc = Inr (slug, name)"
  by (cases sc) (simp_all add: scenario_slug_name_def)

lemma scenario_slug_name_is_dict: "scenario_slug_name sc = Inr p \<Longrightarrow> is_dict sc"
  by (cases sc) (simp_all add: scenario_slug_name_def)

lemma dicts_at_iff:
  "dicts_at ok d k \<longleftrightarrow> (\<exists>xs. get_list d k = Inr xs \<and> (\<forall>x \<in> set xs. ok x))"
  by (cases "get_list d k") (simp_all add: dicts_at_def list_all_iff)

lemma in_set_enumerate_snd:
  assumes "p \<in> set (List.enumerate n xs)"
  shows "snd p \<in> set xs"
proof -
  from assms have a: "n \<le> fst p" "fst p < length xs + n" "xs ! (fst p - n) = snd p"
    by (simp_all add: in_set_enumerate_eq)
  then have "fst p - n < length xs" by arith
  then have "xs ! (fst p - n) \<in> set xs" by (rule nth_mem)
  with a(3) show ?thesis by simp
qed

lemma mapE_enumerate_total:
  assumes "\<And>i x. x \<in> set xs \<Longrightarrow> \<exists>y. f (i, x) = Inr y"
  shows "\<exists>ys. mapE f (List.enumerate n xs) = Inr ys"
proof (rule mapE_total)
  fix p assume "p \<in> set (List.enumerate n xs)"
  then have "snd p \<in> set xs" by (rule in_set_enumerate_snd)
  then have "\<exists>y. f (fst p, snd p) = Inr y" by (rule assms)
  then show "\<exists>y. f p = Inr y" by simp
qed

lemma mapE_nth:
  assumes "mapE f xs = Inr ys"
  shows "length ys = length xs \<and> (\<forall>i < length xs. f (xs ! i) = Inr (ys ! i))"
  using assms unfolding mapE_eq_Inr by (auto simp: list_all2_conv_all_nth)

lemma mapE_enumerate_nth:
  assumes "mapE f (List.enumerate 0 xs) = Inr ys" and "i < length xs"
  shows "length ys = length xs \<and> f (i, xs ! i) = Inr (ys ! i)"
proof -
  from mapE_nth[OF assms(1)] have l: "length ys = length xs"
    and a: "\<forall>i < length (List.enumerate 0 xs). f (List.enumerate 0 xs ! i) = Inr (ys ! i)"
    by simp_all
  from a assms(2) have "f (List.enumerate 0 xs ! i) = Inr (ys ! i)" by simp
  then show ?thesis using l assms(2) by (simp add: nth_enumerate_eq)
qed

lemma block_info_total:
  "is_dict b \<Longrightarrow> \<exists>bi. block_info R s slug name nid nname (i, b) = Inr bi"
  by (cases b) (simp_all add: block_info_def)

lemma node_block_infos_total:
  assumes "wf_node node"
  shows "\<exists>bs. node_block_infos R s slug name node = Inr bs"
proof -
  from assms obtain kvs where node: "node = JObj kvs" unfolding wf_node_def by (cases node) simp_all
  from assms obtain blocks where bl: "get_list node (ustr ''blocks'') = Inr blocks"
    and ok: "\<forall>b \<in> set blocks. is_dict b"
    unfolding wf_node_def dicts_at_iff by blast
  have "\<And>nid nname. \<exists>bs. mapE (block_info R s slug name nid nname) (List.enumerate 0 blocks) = Inr bs"
    by (rule mapE_enumerate_total) (simp add: ok block_info_total)
  then show ?thesis using bl unfolding node_block_infos_def node by simp
qed

lemma scenario_block_infos_total:
  assumes "wf_scenario sc"
  shows "\<exists>bs. scenario_block_infos R (i, sc) = Inr bs"
proof -
  from assms have "is_dict sc" unfolding wf_scenario_def by simp
  then obtain slug name where sn: "scenario_slug_name sc = Inr (slug, name)"
    using scenario_slug_name_total by blast
  from assms obtain nodes where nl: "get_list sc (ustr ''nodes'') = Inr nodes"
    and ok: "\<forall>n \<in> set nodes. wf_node n"
    unfolding wf_scenario_def dicts_at_iff by blast
  have "\<exists>bss. mapE (node_block_infos R i slug name) nodes = Inr bss"
    by (rule mapE_total) (simp add: ok node_block_infos_total)
  then show ?thesis using sn nl unfolding scenario_block_infos_def by auto
qed

lemma extract_blocks_total:
  assumes "wf_attrs (config_attrs self)"
  shows "\<exists>bs. extract_blocks R self = Inr bs"
proof -
  from assms obtain scs where sl: "get_list (config_attrs self) (ustr ''scenarios'') = Inr scs"
    and ok: "\<forall>sc \<in> set scs. wf_scenario sc"
    unfolding wf_attrs_def dicts_at_iff by blast
  have "\<exists>bss. mapE (scenario_block_infos R) (List.enumerate 0 scs) = Inr bss"
    by (rule mapE_enumerate_total) (simp add: ok scenario_block_infos_total)
  then show ?thesis using sl unfolding extract_blocks_def by auto
qed

lemma entry_edge_info_total:
  "is_dict e \<Longrightarrow> \<exists>ei. entry_edge_info s slug name (i, e) = Inr ei"
  by (cases e) (simp_all add: entry_edge_info_def)

lemma scenario_entry_edges_total:
  assumes "wf_scenario sc"
  shows "\<exists>es. scenario_entry_edges (i, sc) = Inr es"
proof -
  from assms have "is_dict sc" unfolding wf_scenario_def by simp
  then obtain slug name where sn: "scenario_slug_name sc = Inr (slug, name)"
    using scenario_slug_name_total by blast
  from assms obtain edges where el: "get_list sc (ustr ''entry_edges'') = Inr edges"
    and ok: "\<forall>e \<in> set edges. is_dict e"
    unfolding wf_scenario_def dicts_at_iff by blast
  have "\<exists>es. mapE (entry_edge_info i slug name) (List.enumerate 0 edges) = Inr es"
    by (rule mapE_enumerate_total) (simp add: ok entry_edge_info_total)
  then show ?thesis using sn el unfolding scenario_entry_edges_def by auto
qed

lemma extract_entry_edges_total:
  assumes "wf_attrs (config_attrs self)"
  shows "\<exists>es. extract_entry_edges self = Inr es"
proof -
  from assms obtain scs where sl: "get_list (config_attrs self) (ustr ''scenarios'') = Inr scs"
    and ok: "\<forall>sc \<in> set scs. wf_scenario sc"
    unfolding wf_attrs_def dicts_at_iff by blast
  have "\<exists>ess. mapE scenario_entry_edges (List.enumerate 0 scs) = Inr ess"
    by (rule mapE_enumerate_total) (simp add: ok scenario_entry_edges_total)
  then show ?thesis using sl unfolding extract_entry_edges_def by auto
qed

lemma node_info_total:
  assumes "is_dict node" and "extract_blocks R self = Inr bs"
  shows "\<exists>ni. node_info R self s slug name (i, node) = Inr ni"
  using assms by (cases node) (simp_all add: node_info_def)

lemma scenario_node_infos_total:
  assumes "wf_scenario sc" and "wf_attrs (config_attrs self)"
  shows "\<exists>ns. scenario_node_infos R self (i, sc) = Inr ns"
proof -
  from assms(1) have "is_dict sc" unfolding wf_scenario_def by simp
  then obtain slug name where sn: "scenario_slug_name sc = Inr (slug, name)"
    using scenario_slug_name_total by blast
  from assms(1) obtain nodes where nl: "get_list sc (ustr ''nodes'') = Inr nodes"
    and ok: "\<forall>n \<in> set nodes. wf_node n"
    unfolding wf_scenario_def dicts_at_iff by blast
  obtain bs where bs: "extract_blocks R self = Inr bs"
    using extract_blocks_total[OF assms(2)] by blast
  have "\<exists>ns. mapE (node_info R self i slug name) (List.enumerate 0 nodes) = Inr ns"
  proof (rule mapE_enumerate_total)
    fix k x assume "x \<in> set nodes"
    then have "is_dict x" using ok unfolding wf_node_def by blast
    then show "\<exists>y. node_info R self i slug name (k, x) = Inr y"
      using bs by (rule node_info_total)
  qed
  then show ?thesis using sn nl unfolding scenario_node_infos_def by auto
qed

lemma extract_nodes_total:
  assumes "wf_attrs (config_attrs self)"
  shows "\<exists>ns. extract_nodes R self = Inr ns"
proof -
  from assms obtain scs where sl: "get_list (config_attrs self) (ustr ''scenarios'') = Inr scs"
    and ok: "\<forall>sc \<in> set scs. wf_scenario sc"
    unfolding wf_attrs_def dicts_at_iff by blast
  have "\<exists>nss. mapE (scenario_node_infos R self) (List.enumerate 0 scs) = Inr nss"
    by (rule mapE_enumerate_total) (simp add: ok assms scenario_node_infos_total)
  then show ?thesis using sl unfolding extract_nodes_def by auto
qed

lemma scenario_info_total:
  assumes "is_dict sc" and "wf_attrs (config_attrs self)"
  shows "\<exists>si. scenario_info R self (i, sc) = Inr si"
proof -
  obtain slug name where sn: "scenario_slug_name sc = Inr (slug, name)"
    using scenario_slug_name_total[OF assms(1)] by blast
  obtain es where es: "extract_entry_edges self = Inr es"
    using extract_entry_edges_total[OF assms(2)] by blast
  obtain ns where ns: "extract_nodes R self = Inr ns"
    using extract_nodes_total[OF assms(2)] by blast
  obtain sid where sid: "dict_get sc (ustr ''id'') JNull = Inr sid"
    using dict_get_total[OF assms(1)] by blast
  obtain par where par: "dict_get sc (ustr ''parent_scenario_id'') JNull = Inr par"
    using dict_get_total[OF assms(1)] by blast
  show ?thesis unfolding scenario_info_def using sn es ns sid par by simp
qed

lemma extract_scenarios_total:
  assumes "wf_attrs (config_attrs self)"
  shows "\<exists>recs. extract_scenarios R self = Inr recs"
proof -
  from assms obtain scs where sl: "get_list (config_attrs self) (ustr ''scenarios'') = Inr scs"
    and ok: "\<forall>sc \<in> set scs. wf_scenario sc"
    unfolding wf_attrs_def dicts_at_iff by blast
  have "\<exists>recs. mapE (scenario_info R self) (List.enumerate 0 scs) = Inr recs"
  proof (rule mapE_enumerate_total)
    fix k x assume "x \<in> set scs"
    then have "is_dict x" using ok unfolding wf_scenario_def by blast
    then show "\<exists>y. scenario_info R self (k, x) = Inr y"
      using assms by (rule scenario_info_total)
  qed
  then show ?thesis using sl unfolding extract_scenarios_def by auto
qed

lemma entry_edge_info_slug:
  "entry_edge_info s slug name ie = Inr e \<Longrightarrow> e_scenario_slug e = slug"
  by (cases ie) (auto simp: entry_edge_info_def bindE_eq_Inr)

lemma node_info_slug:
  "node_info R self s slug name inode = Inr n \<Longrightarrow> n_scenario_slug n = slug"
  by (cases inode) (auto simp: node_info_def bindE_eq_Inr)

lemma mapE_all:
  assumes "mapE f xs = Inr ys" and "\<And>x y. f x = Inr y \<Longrightarrow> P y"
  shows "\<forall>y \<in> set ys. P y"
proof -
  from assms(1) have "list_all2 (\<lambda>x y. f x = Inr y) xs ys" unfolding mapE_eq_Inr .
  then show ?thesis
    by (induction rule: list_all2_induct) (auto intro: assms(2))
qed

lemma scenario_entry_edges_slug:
  assumes "scenario_slug_name sc = Inr (slug, name)"
    and "scenario_entry_edges (i, sc) = Inr es"
  shows "\<forall>e \<in> set es. e_scenario_slug e = slug"
proof -
  from assms obtain edges where
    m: "mapE (entry_edge_info i slug name) (List.enumerate 0 edges) = Inr es"
    unfolding scenario_entry_edges_def by (auto simp: bindE_eq_Inr)
  show ?thesis by (rule mapE_all[OF m]) (rule entry_edge_info_slug)
qed

lemma scenario_node_infos_slug:
  assumes "scenario_slug_name sc = Inr (slug, name)"
    and "scenario_node_infos R self (i, sc) = Inr ns"
  shows "\<forall>n \<in> set ns. n_scenario_slug n = slug"
proof -
  from assms obtain nodes where
    m: "mapE (node_info R self i slug name) (List.enumerate 0 nodes) = Inr ns"
    unfolding scenario_node_infos_def by (auto simp: bindE_eq_Inr)
  show ?thesis by (rule mapE_all[OF m]) (rule node_info_slug)
qed

lemma nth_subset_concat:
  assumes "i < length xss"
  shows "set (xss ! i) \<subseteq> set (concat xss)"
proof -
  from assms have "xss ! i \<in> set xss" by (rule nth_mem)
  then show ?thesis by auto
qed

lemma extract_entry_edges_part:
  assumes "extract_entry_edges self = Inr all_edges"
    and "get_list (config_attrs self) (ustr ''scenarios'') = Inr scs"
    and "j < length scs"
  shows "\<exists>es. scenario_entry_edges (j, scs ! j) = Inr es \<and> set es \<subseteq> set all_edges"
proof -
  from assms(1,2) obtain ess where
    m: "mapE scenario_entry_edges (List.enumerate 0 scs) = Inr ess"
    and c: "all_edges = concat ess"
    unfolding extract_entry_edges_def by (auto simp: bindE_eq_Inr)
  from mapE_enumerate_nth[OF m assms(3)]
  have l: "length ess = length scs" and e: "scenario_entry_edges (j, scs ! j) = Inr (ess ! j)"
    by simp_all
  have "set (ess ! j) \<subseteq> set all_edges"
    unfolding c by (rule nth_subset_concat) (simp add: l assms(3))
  with e show ?thesis by blast
qed

lemma extract_nodes_part:
  assumes "extract_nodes R self = Inr all_nodes"
    and "get_list (config_attrs self) (ustr ''scenarios'') = Inr scs"
    and "j < length scs"
  shows "\<exists>ns. scenario_node_infos R self (j, scs ! j) = Inr ns \<and> set ns \<subseteq> set all_nodes"
proof -
  from assms(1,2) obtain nss where
    m: "mapE (scenario_node_infos R self) (List.enumerate 0 scs) = Inr nss"
    and c: "all_nodes = concat nss"
    unfolding extract_nodes_def by (auto simp: bindE_eq_Inr)
  from mapE_enumerate_nth[OF m assms(3)]
  have l: "length nss = length scs"
    and e: "scenario_node_infos R self (j, scs ! j) = Inr (nss ! j)"
    by simp_all
  have "set (nss ! j) \<subseteq> set all_nodes"
    unfolding c by (rule nth_subset_concat) (simp add: l assms(3))
  with e show ?thesis by blast
qed

lemma scenario_info_fields:
  assumes "scenario_info R self (i, sc) = Inr r"
    and "scenario_slug_name sc = Inr (slug, name)"
    and "extract_entry_edges self = Inr all_edges"
    and "extract_nodes R self = Inr all_nodes"
  shows "s_slug r = slug \<and> s_name r = name
    \<and> s_path r = ustr ''scenarios['' @ str_nat i @ ustr '']''
    \<and> dict_get sc (ustr ''id'') JNull = Inr (s_scenario_id r)
    \<and> s_entry_edges r = filter (\<lambda>e. py_eq (e_scenario_slug e) slug) all_edges
    \<and> s_nodes r = filter (\<lambda>n. py_eq (n_scenario_slug n) slug) all_nodes"
  using assms unfolding scenario_info_def by (auto simp: bindE_eq_Inr)

section \<open>The extractor\<close>

lemma scenario_slug_name_JObj:
  "scenario_slug_name (JObj kvs) =
     Inr (case map_of kvs (ustr ''slug'') of
            Some v \<Rightarrow> v
          | None \<Rightarrow> (case map_of kvs (ustr ''name'') of Some v \<Rightarrow> v | None \<Rightarrow> JStr []),
          case map_of kvs (ustr ''name'') of Some v \<Rightarrow> v | None \<Rightarrow> JStr [])"
  by (simp add: scenario_slug_name_def)

lemma scenario_info_record:
  assumes "scenario_slug_name (JObj kvs) = Inr (slug, name)"
    and "extract_entry_edges self = Inr all_edges"
    and "extract_nodes R self = Inr all_nodes"
  shows "scenario_info R self (i, JObj kvs) =
     Inr \<lparr>s_path = ustr ''scenarios['' @ str_nat i @ ustr '']'',
          s_scenario_id = (case map_of kvs (ustr ''id'') of Some v \<Rightarrow> v | None \<Rightarrow> JNull),
          s_name = name,
          s_slug = slug,
          s_parent_scenario_id =
            (case map_of kvs (ustr ''parent_scenario_id'') of Some v \<Rightarrow> v | None \<Rightarrow> JNull),
          s_entry_edges = filter (\<lambda>e. py_eq (e_scenario_slug e) slug) all_edges,
          s_nodes = filter (\<lambda>n. py_eq (n_scenario_slug n) slug) all_nodes\<rparr>"
  using assms unfolding scenario_info_def by simp

text \<open>
  Claim C10. In a configuration whose scenarios, nodes, entry edges and blocks are lists
  of dictionaries, take two scenario entries whose derived slugs (the \<open>slug\<close> field,
  else the \<open>name\<close>, else the empty string) are equal for Python's \<open>==\<close>. Scenario
  extraction returns one record for every scenario entry, and the record of each of the
  two holds, in its entry-edge list and in its node list, the entry edges and the nodes
  built from both entries. The attachment goes by the slug and not by the position: the
  entry-edge list of a record is the full entry-edge extraction filtered by
  \<open>scenario_slug == slug\<close>, and its node list is the full node extraction filtered in
  the same way, so an edge or a node of any scenario is attached exactly when its slug
  equals the record's.
\<close>

theorem extract_scenarios_shared_slug:
  assumes wf: "wf_attrs (config_attrs self)"
    and scs: "get_list (config_attrs self) (ustr ''scenarios'') = Inr scs"
    and i: "i < length scs" and j: "j < length scs"
    and si: "scenario_slug_name (scs ! i) = Inr (slug_i, name_i)"
    and sj: "scenario_slug_name (scs ! j) = Inr (slug_j, name_j)"
    and eq: "py_eq slug_i slug_j"
  shows "\<exists>recs es_i es_j ns_i ns_j all_edges all_nodes.
      extract_scenarios R self = Inr recs \<and> length recs = length scs
    \<and> s_slug (recs ! i) = slug_i \<and> s_slug (recs ! j) = slug_j
    \<and> scenario_entry_edges (i, scs ! i) = Inr es_i
    \<and> scenario_entry_edges (j, scs ! j) = Inr es_j
    \<and> scenario_node_infos R self (i, scs ! i) = Inr ns_i
    \<and> scenario_node_infos R self (j, scs ! j) = Inr ns_j
    \<and> set es_i \<union> set es_j \<subseteq> set (s_entry_edges (recs ! i))
    \<and> set es_i \<union> set es_j \<subseteq> set (s_entry_edges (recs ! j))
    \<and> set ns_i \<union> set ns_j \<subseteq> set (s_nodes (recs ! i))
    \<and> set ns_i \<union> set ns_j \<subseteq> set (s_nodes (recs ! j))
    \<and> extract_entry_edges self = Inr all_edges
    \<and> extract_nodes R self = Inr all_nodes
    \<and> s_entry_edges (recs ! i) = filter (\<lambda>e. py_eq (e_scenario_slug e) slug_i) all_edges
    \<and> s_entry_edges (recs ! j) = filter (\<lambda>e. py_eq (e_scenario_slug e) slug_j) all_edges
    \<and> s_nodes (recs ! i) = filter (\<lambda>n. py_eq (n_scenario_slug n) slug_i) all_nodes
    \<and> s_nodes (recs ! j) = filter (\<lambda>n. py_eq (n_scenario_slug n) slug_j) all_nodes"
proof -
  obtain recs where recs: "extract_scenarios R self = Inr recs"
    using extract_scenarios_total[OF wf] by blast
  obtain all_edges where ae: "extract_entry_edges self = Inr all_edges"
    using extract_entry_edges_total[OF wf] by blast
  obtain all_nodes where an: "extract_nodes R self = Inr all_nodes"
    using extract_nodes_total[OF wf] by blast
  from recs scs have m: "mapE (scenario_info R self) (List.enumerate 0 scs) = Inr recs"
    unfolding extract_scenarios_def by simp
  from mapE_enumerate_nth[OF m i]
  have len: "length recs = length scs"
    and ri: "scenario_info R self (i, scs ! i) = Inr (recs ! i)" by simp_all
  from mapE_enumerate_nth[OF m j]
  have rj: "scenario_info R self (j, scs ! j) = Inr (recs ! j)" by simp
  note fi = scenario_info_fields[OF ri si ae an]
  note fj = scenario_info_fields[OF rj sj ae an]
  obtain es_i where ei: "scenario_entry_edges (i, scs ! i) = Inr es_i"
    and ei_sub: "set es_i \<subseteq> set all_edges"
    using extract_entry_edges_part[OF ae scs i] by blast
  obtain es_j where ej: "scenario_entry_edges (j, scs ! j) = Inr es_j"
    and ej_sub: "set es_j \<subseteq> set all_edges"
    using extract_entry_edges_part[OF ae scs j] by blast
  obtain ns_i where ni: "scenario_node_infos R self (i, scs ! i) = Inr ns_i"
    and ni_sub: "set ns_i \<subseteq> set all_nodes"
    using extract_nodes_part[OF an scs i] by blast
  obtain ns_j where nj: "scenario_node_infos R self (j, scs ! j) = Inr ns_j"
    and nj_sub: "set ns_j \<subseteq> set all_nodes"
    using extract_nodes_part[OF an scs j] by blast
  note ei_slug = scenario_entry_edges_slug[OF si ei]
  note ej_slug = scenario_entry_edges_slug[OF sj ej]
  note ni_slug = scenario_node_infos_slug[OF si ni]
  note nj_slug = scenario_node_infos_slug[OF sj nj]
  have ii: "py_eq slug_i slug_i" and jj: "py_eq slug_j slug_j" by (rule py_eq_refl)+
  have ji: "py_eq slug_j slug_i" using eq by (rule py_eq_sym)
  have e1: "set es_i \<union> set es_j \<subseteq> set (s_entry_edges (recs ! i))"
    using fi ei_sub ej_sub ei_slug ej_slug ii ji by auto
  have e2: "set es_i \<union> set es_j \<subseteq> set (s_entry_edges (recs ! j))"
    using fj ei_sub ej_sub ei_slug ej_slug jj eq by auto
  have n1: "set ns_i \<union> set ns_j \<subseteq> set (s_nodes (recs ! i))"
    using fi ni_sub nj_sub ni_slug nj_slug ii ji by auto
  have n2: "set ns_i \<union> set ns_j \<subseteq> set (s_nodes (recs ! j))"
    using fj ni_sub nj_sub ni_slug nj_slug jj eq by auto
  from fi fj have s: "s_slug (recs ! i) = slug_i" "s_slug (recs ! j) = slug_j" by simp_all
  from fi have fe_i: "s_entry_edges (recs ! i)
      = filter (\<lambda>e. py_eq (e_scenario_slug e) slug_i) all_edges"
    and fn_i: "s_nodes (recs ! i) = filter (\<lambda>n. py_eq (n_scenario_slug n) slug_i) all_nodes"
    by simp_all
  from fj have fe_j: "s_entry_edges (recs ! j)
      = filter (\<lambda>e. py_eq (e_scenario_slug e) slug_j) all_edges"
    and fn_j: "s_nodes (recs ! j) = filter (\<lambda>n. py_eq (n_scenario_slug n) slug_j) all_nodes"
    by simp_all
  show ?thesis
    apply (rule exI[of _ recs], rule exI[of _ es_i], rule exI[of _ es_j])
    apply (rule exI[of _ ns_i], rule exI[of _ ns_j])
    apply (rule exI[of _ all_edges], rule exI[of _ all_nodes])
    apply (intro conjI)
    apply (fact recs len s ei ej ni nj e1 e2 n1 n2 ae an fe_i fe_j fn_i fn_j)+
    done
qed

lemma scenario_ids_from_append:
  "scenario_ids_from S (xs @ zs) = bindE (scenario_ids_from S xs) (\<lambda>S'. scenario_ids_from S' zs)"
proof (induction xs arbitrary: S)
  case Nil
  show ?case by simp
next
  case (Cons x xs)
  show ?case
    by (auto simp: Cons.IH bindE_def split: sum.splits)
qed

lemma scenario_ids_from_skip:
  assumes "map_of kvs (ustr ''id'') = None"
  shows "scenario_ids_from S (JObj kvs # ys) = scenario_ids_from S ys"
proof -
  from assms have "ustr ''id'' \<notin> fst ` set kvs" by (simp add: map_of_eq_None_iff)
  then show ?thesis by simp
qed

text \<open>
  Claim C9. A scenario entry (a dictionary) without an \<open>id\<close> field contributes nothing
  to the set of all scenario ids: the set is the one computed for the configuration
  without that entry, errors included, and no placeholder is added for it. In a
  configuration of lists of dictionaries scenario extraction still returns the entry in
  full, at its position: the record has its path, \<open>None\<close> as its \<open>scenario_id\<close>, its
  name, its derived slug, its parent id, and the entry edges and nodes whose slug equals
  its own, among them the ones built from the entry itself.
\<close>

theorem get_all_scenario_ids_skips_idless:
  assumes scs: "get_list (config_attrs self) (ustr ''scenarios'') = Inr (xs @ JObj kvs # ys)"
    and noid: "map_of kvs (ustr ''id'') = None"
    and scs': "get_list (config_attrs self') (ustr ''scenarios'') = Inr (xs @ ys)"
  shows "get_all_scenario_ids self = get_all_scenario_ids self'
    \<and> (wf_attrs (config_attrs self) \<longrightarrow>
        (\<exists>recs all_edges all_nodes es ns.
            extract_scenarios R self = Inr recs
          \<and> length recs = length xs + 1 + length ys
          \<and> extract_entry_edges self = Inr all_edges
          \<and> extract_nodes R self = Inr all_nodes
          \<and> recs ! length xs =
              \<lparr>s_path = ustr ''scenarios['' @ str_nat (length xs) @ ustr '']'',
               s_scenario_id = JNull,
               s_name = (case map_of kvs (ustr ''name'') of Some v \<Rightarrow> v | None \<Rightarrow> JStr []),
               s_slug = (case map_of kvs (ustr ''slug'') of
                           Some v \<Rightarrow> v
                         | None \<Rightarrow> (case map_of kvs (ustr ''name'') of
                                      Some v \<Rightarrow> v | None \<Rightarrow> JStr [])),
               s_parent_scenario_id =
                 (case map_of kvs (ustr ''parent_scenario_id'') of
                    Some v \<Rightarrow> v | None \<Rightarrow> JNull),
               s_entry_edges =
                 filter (\<lambda>e. py_eq (e_scenario_slug e)
                   (case map_of kvs (ustr ''slug'') of
                      Some v \<Rightarrow> v
                    | None \<Rightarrow> (case map_of kvs (ustr ''name'') of
                                 Some v \<Rightarrow> v | None \<Rightarrow> JStr []))) all_edges,
               s_nodes =
                 filter (\<lambda>n. py_eq (n_scenario_slug n)
                   (case map_of kvs (ustr ''slug'') of
                      Some v \<Rightarrow> v
                    | None \<Rightarrow> (case map_of kvs (ustr ''name'') of
                                 Some v \<Rightarrow> v | None \<Rightarrow> JStr []))) all_nodes\<rparr>
          \<and> scenario_entry_edges (length xs, JObj kvs) = Inr es
          \<and> set es \<subseteq> set (s_entry_edges (recs ! length xs))
          \<and> scenario_node_infos R self (length xs, JObj kvs) = Inr ns
          \<and> set ns \<subseteq> set (s_nodes (recs ! length xs))))"
proof (intro conjI impI)
  have "scenario_ids_from [] (xs @ JObj kvs # ys)
      = bindE (scenario_ids_from [] xs) (\<lambda>S'. scenario_ids_from S' (JObj kvs # ys))"
    by (rule scenario_ids_from_append)
  also have "\<dots> = bindE (scenario_ids_from [] xs) (\<lambda>S'. scenario_ids_from S' ys)"
    by (simp only: scenario_ids_from_skip[OF noid])
  also have "\<dots> = scenario_ids_from [] (xs @ ys)"
    by (rule scenario_ids_from_append[symmetric])
  finally show "get_all_scenario_ids self = get_all_scenario_ids self'"
    unfolding get_all_scenario_ids_def scs scs' by simp
next
  assume wf: "wf_attrs (config_attrs self)"
  let ?scs = "xs @ JObj kvs # ys"
  let ?i = "length xs"
  let ?slug = "case map_of kvs (ustr ''slug'') of
                 Some v \<Rightarrow> v
               | None \<Rightarrow> (case map_of kvs (ustr ''name'') of Some v \<Rightarrow> v | None \<Rightarrow> JStr [])"
  let ?name = "case map_of kvs (ustr ''name'') of Some v \<Rightarrow> v | None \<Rightarrow> JStr []"
  obtain recs where recs: "extract_scenarios R self = Inr recs"
    using extract_scenarios_total[OF wf] by blast
  obtain all_edges where ae: "extract_entry_edges self = Inr all_edges"
    using extract_entry_edges_total[OF wf] by blast
  obtain all_nodes where an: "extract_nodes R self = Inr all_nodes"
    using extract_nodes_total[OF wf] by blast
  have i: "?i < length ?scs" by simp
  have at: "?scs ! ?i = JObj kvs" by simp
  from recs scs have m: "mapE (scenario_info R self) (List.enumerate 0 ?scs) = Inr recs"
    unfolding extract_scenarios_def by simp
  from mapE_enumerate_nth[OF m i]
  have len: "length recs = length xs + 1 + length ys"
    and ri: "scenario_info R self (?i, JObj kvs) = Inr (recs ! ?i)"
    unfolding at by simp_all
  have sn: "scenario_slug_name (JObj kvs) = Inr (?slug, ?name)"
    by (rule scenario_slug_name_JObj)
  from ri scenario_info_record[OF sn ae an, of ?i] noid
  have rec: "recs ! ?i =
      \<lparr>s_path = ustr ''scenarios['' @ str_nat ?i @ ustr '']'',
       s_scenario_id = JNull,
       s_name = ?name,
       s_slug = ?slug,
       s_parent_scenario_id =
         (case map_of kvs (ustr ''parent_scenario_id'') of Some v \<Rightarrow> v | None \<Rightarrow> JNull),
       s_entry_edges = filter (\<lambda>e. py_eq (e_scenario_slug e) ?slug) all_edges,
       s_nodes = filter (\<lambda>n. py_eq (n_scenario_slug n) ?slug) all_nodes\<rparr>"
    by simp
  obtain es where es: "scenario_entry_edges (?i, JObj kvs) = Inr es"
    and es_sub: "set es \<subseteq> set all_edges"
    using extract_entry_edges_part[OF ae scs i] unfolding at by blast
  obtain ns where ns: "scenario_node_infos R self (?i, JObj kvs) = Inr ns"
    and ns_sub: "set ns \<subseteq> set all_nodes"
    using extract_nodes_part[OF an scs i] unfolding at by blast
  note es_slug = scenario_entry_edges_slug[OF sn es]
  note ns_slug = scenario_node_infos_slug[OF sn ns]
  have own: "py_eq ?slug ?slug" by (rule py_eq_refl)
  have es_in: "set es \<subseteq> set (s_entry_edges (recs ! ?i))"
    unfolding rec using es_sub es_slug own by auto
  have ns_in: "set ns \<subseteq> set (s_nodes (recs ! ?i))"
    unfolding rec using ns_sub ns_slug own by auto
  show "\<exists>recs all_edges all_nodes es ns.
            extract_scenarios R self = Inr recs
          \<and> length recs = length xs + 1 + length ys
          \<and> extract_entry_edges self = Inr all_edges
          \<and> extract_nodes R self = Inr all_nodes
          \<and> recs ! length xs =
              \<lparr>s_path = ustr ''scenarios['' @ str_nat (length xs) @ ustr '']'',
               s_scenario_id = JNull,
               s_name = ?name,
               s_slug = ?slug,
               s_parent_scenario_id =
                 (case map_of kvs (ustr ''parent_scenario_id'') of
                    Some v \<Rightarrow> v | None \<Rightarrow> JNull),
               s_entry_edges = filter (\<lambda>e. py_eq (e_scenario_slug e) ?slug) all_edges,
               s_nodes = filter (\<lambda>n. py_eq (n_scenario_slug n) ?slug) all_nodes\<rparr>
          \<and> scenario_entry_edges (length xs, JObj kvs) = Inr es
          \<and> set es \<subseteq> set (s_entry_edges (recs ! length xs))
          \<and> scenario_node_infos R self (length xs, JObj kvs) = Inr ns
          \<and> set ns \<subseteq> set (s_nodes (recs ! length xs))"
    apply (rule exI[of _ recs], rule exI[of _ all_edges], rule exI[of _ all_nodes])
    apply (rule exI[of _ es], rule exI[of _ ns])
    apply (intro conjI)
    apply (fact recs len ae an rec es es_in ns ns_in)+
    done
qed




lemmas sample_defs =
  shared_slug_extractor_def shared_slug_scenarios_def idless_scenario_extractor_def
  without_idless_extractor_def idless_node_config_def

lemmas wf_defs = wf_attrs_def wf_scenario_def wf_node_def dicts_at_def get_list_def

lemmas scenario_defs =
  extract_entry_edges_def scenario_entry_edges_def entry_edge_info_def
  extract_nodes_def scenario_node_infos_def node_info_def
  extract_blocks_def scenario_block_infos_def node_block_infos_def block_info_def
  scenario_slug_name_def get_list_def

lemma shared_slug_edges:
  "extract_entry_edges shared_slug_extractor =
     Inr [\<lparr>e_path = ustr ''scenarios[0].entry_edges[0]'',
           e_type = JStr (ustr ''match''), e_pattern = JStr (ustr ''hi''),
           e_target_node_id = JStr [],
           e_scenario_slug = JStr (ustr ''s''), e_scenario_name = JStr (ustr ''A''),
           e_edge_id = JNull, e_name = JNull\<rparr>,
          \<lparr>e_path = ustr ''scenarios[1].entry_edges[0]'',
           e_type = JStr (ustr ''event''), e_pattern = JStr (ustr ''init''),
           e_target_node_id = JStr [],
           e_scenario_slug = JStr (ustr ''s''), e_scenario_name = JStr (ustr ''s''),
           e_edge_id = JNull, e_name = JNull\<rparr>,
          \<lparr>e_path = ustr ''scenarios[2].entry_edges[0]'',
           e_type = JStr (ustr ''match''), e_pattern = JStr (ustr ''bye''),
           e_target_node_id = JStr [],
           e_scenario_slug = JStr (ustr ''t''), e_scenario_name = JStr [],
           e_edge_id = JNull, e_name = JNull\<rparr>]"
  by (simp add: scenario_defs sample_defs ustr_def str_nat.simps)

lemma shared_slug_nodes:
  "extract_nodes R shared_slug_extractor =
     Inr [\<lparr>n_path = ustr ''scenarios[0].nodes[0]'',
           n_node_id = JStr (ustr ''n1''), n_name = JStr [],
           n_scenario_slug = JStr (ustr ''s''), n_scenario_name = JStr (ustr ''A''),
           n_blocks = [], n_next_node_id = JNull\<rparr>,
          \<lparr>n_path = ustr ''scenarios[1].nodes[0]'',
           n_node_id = JStr (ustr ''n2''), n_name = JStr [],
           n_scenario_slug = JStr (ustr ''s''), n_scenario_name = JStr (ustr ''s''),
           n_blocks = [], n_next_node_id = JNull\<rparr>,
          \<lparr>n_path = ustr ''scenarios[2].nodes[0]'',
           n_node_id = JStr (ustr ''n3''), n_name = JStr [],
           n_scenario_slug = JStr (ustr ''t''), n_scenario_name = JStr [],
           n_blocks = [], n_next_node_id = JNull\<rparr>]"
  by (simp add: scenario_defs sample_defs ustr_def str_nat.simps)

text \<open>
  The hypotheses of claim C10 hold for the sample configuration: its first two
  scenarios share the slug \<open>s\<close>, one from its \<open>slug\<close> field and one from its \<open>name\<close>,
  and both records get the edges and nodes of the two, but not those of the third
  scenario, whose slug is \<open>t\<close>.
\<close>

theorem extract_scenarios_shared_slug_witness:
  "wf_attrs (config_attrs shared_slug_extractor)
   \<and> scenario_slug_name (shared_slug_scenarios ! 0) = Inr (JStr (ustr ''s''), JStr (ustr ''A''))
   \<and> scenario_slug_name (shared_slug_scenarios ! 1) = Inr (JStr (ustr ''s''), JStr (ustr ''s''))
   \<and> (\<exists>recs es_i es_j ns_i ns_j all_edges all_nodes.
      extract_scenarios (\<lambda>v. []) shared_slug_extractor = Inr recs
    \<and> length recs = 3
    \<and> s_slug (recs ! 0) = JStr (ustr ''s'') \<and> s_slug (recs ! 1) = JStr (ustr ''s'')
    \<and> scenario_entry_edges (0, shared_slug_scenarios ! 0) = Inr es_i
    \<and> scenario_entry_edges (1, shared_slug_scenarios ! 1) = Inr es_j
    \<and> scenario_node_infos (\<lambda>v. []) shared_slug_extractor (0, shared_slug_scenarios ! 0) = Inr ns_i
    \<and> scenario_node_infos (\<lambda>v. []) shared_slug_extractor (1, shared_slug_scenarios ! 1) = Inr ns_j
    \<and> set es_i \<union> set es_j \<subseteq> set (s_entry_edges (recs ! 0))
    \<and> set es_i \<union> set es_j \<subseteq> set (s_entry_edges (recs ! 1))
    \<and> set ns_i \<union> set ns_j \<subseteq> set (s_nodes (recs ! 0))
    \<and> set ns_i \<union> set ns_j \<subseteq> set (s_nodes (recs ! 1))
    \<and> extract_entry_edges shared_slug_extractor = Inr all_edges
    \<and> extract_nodes (\<lambda>v. []) shared_slug_extractor = Inr all_nodes
    \<and> map e_pattern all_edges = [JStr (ustr ''hi''), JStr (ustr ''init''), JStr (ustr ''bye'')]
    \<and> map e_pattern (s_entry_edges (recs ! 0)) = [JStr (ustr ''hi''), JStr (ustr ''init'')]
    \<and> map e_pattern (s_entry_edges (recs ! 1)) = [JStr (ustr ''hi''), JStr (ustr ''init'')]
    \<and> map n_node_id all_nodes = [JStr (ustr ''n1''), JStr (ustr ''n2''), JStr (ustr ''n3'')]
    \<and> map n_node_id (s_nodes (recs ! 0)) = [JStr (ustr ''n1''), JStr (ustr ''n2'')]
    \<and> map n_node_id (s_nodes (recs ! 1)) = [JStr (ustr ''n1''), JStr (ustr ''n2'')])"
proof -
  have h1: "wf_attrs (config_attrs shared_slug_extractor)"
    by (simp add: sample_defs wf_defs ustr_def)
  have h2: "get_list (config_attrs shared_slug_extractor) (ustr ''scenarios'')
      = Inr shared_slug_scenarios"
    by (simp add: shared_slug_extractor_def get_list_def)
  have h3: "0 < length shared_slug_scenarios" and h4: "1 < length shared_slug_scenarios"
    by (simp_all add: shared_slug_scenarios_def)
  have h5: "scenario_slug_name (shared_slug_scenarios ! 0)
      = Inr (JStr (ustr ''s''), JStr (ustr ''A''))"
    by (simp add: shared_slug_scenarios_def scenario_slug_name_def ustr_def)
  have h6: "scenario_slug_name (shared_slug_scenarios ! 1)
      = Inr (JStr (ustr ''s''), JStr (ustr ''s''))"
    by (simp add: shared_slug_scenarios_def scenario_slug_name_def ustr_def)
  have h7: "py_eq (JStr (ustr ''s'')) (JStr (ustr ''s''))" by simp
  have l3: "length shared_slug_scenarios = 3" by (simp add: shared_slug_scenarios_def)
  from extract_scenarios_shared_slug[OF h1 h2 h3 h4 h5 h6 h7, where R = "\<lambda>v. []"]
  obtain recs es_i es_j ns_i ns_j all_edges all_nodes where
    a1: "extract_scenarios (\<lambda>v. []) shared_slug_extractor = Inr recs"
    and a2: "length recs = length shared_slug_scenarios"
    and a3: "s_slug (recs ! 0) = JStr (ustr ''s'')" and a4: "s_slug (recs ! 1) = JStr (ustr ''s'')"
    and a5: "scenario_entry_edges (0, shared_slug_scenarios ! 0) = Inr es_i"
    and a6: "scenario_entry_edges (1, shared_slug_scenarios ! 1) = Inr es_j"
    and a7: "scenario_node_infos (\<lambda>v. []) shared_slug_extractor (0, shared_slug_scenarios ! 0)
        = Inr ns_i"
    and a8: "scenario_node_infos (\<lambda>v. []) shared_slug_extractor (1, shared_slug_scenarios ! 1)
        = Inr ns_j"
    and a9: "set es_i \<union> set es_j \<subseteq> set (s_entry_edges (recs ! 0))"
    and a10: "set es_i \<union> set es_j \<subseteq> set (s_entry_edges (recs ! 1))"
    and a11: "set ns_i \<union> set ns_j \<subseteq> set (s_nodes (recs ! 0))"
    and a12: "set ns_i \<union> set ns_j \<subseteq> set (s_nodes (recs ! 1))"
    and ae: "extract_entry_edges shared_slug_extractor = Inr all_edges"
    and an: "extract_nodes (\<lambda>v. []) shared_slug_extractor = Inr all_nodes"
    and fe0: "s_entry_edges (recs ! 0)
        = filter (\<lambda>e. py_eq (e_scenario_slug e) (JStr (ustr ''s''))) all_edges"
    and fe1: "s_entry_edges (recs ! 1)
        = filter (\<lambda>e. py_eq (e_scenario_slug e) (JStr (ustr ''s''))) all_edges"
    and fn0: "s_nodes (recs ! 0)
        = filter (\<lambda>n. py_eq (n_scenario_slug n) (JStr (ustr ''s''))) all_nodes"
    and fn1: "s_nodes (recs ! 1)
        = filter (\<lambda>n. py_eq (n_scenario_slug n) (JStr (ustr ''s''))) all_nodes"
    by blast
  from ae have ae_val: "Inr all_edges = extract_entry_edges shared_slug_extractor" by simp
  from an have an_val: "Inr all_nodes = extract_nodes (\<lambda>v. []) shared_slug_extractor" by simp
  have b1: "map e_pattern all_edges
      = [JStr (ustr ''hi''), JStr (ustr ''init''), JStr (ustr ''bye'')]"
    using ae_val unfolding shared_slug_edges by auto
  have b2: "map e_pattern (filter (\<lambda>e. py_eq (e_scenario_slug e) (JStr (ustr ''s''))) all_edges)
      = [JStr (ustr ''hi''), JStr (ustr ''init'')]"
    using ae_val unfolding shared_slug_edges by (auto simp: ustr_def)
  have b3: "map n_node_id all_nodes
      = [JStr (ustr ''n1''), JStr (ustr ''n2''), JStr (ustr ''n3'')]"
    using an_val unfolding shared_slug_nodes by auto
  have b4: "map n_node_id (filter (\<lambda>n. py_eq (n_scenario_slug n) (JStr (ustr ''s''))) all_nodes)
      = [JStr (ustr ''n1''), JStr (ustr ''n2'')]"
    using an_val unfolding shared_slug_nodes by (auto simp: ustr_def)
  have a2': "length recs = 3" using a2 l3 by simp
  show ?thesis
    apply (intro conjI)
    apply (fact h1 h5 h6)+
    apply (rule exI[of _ recs], rule exI[of _ es_i], rule exI[of _ es_j])
    apply (rule exI[of _ ns_i], rule exI[of _ ns_j])
    apply (rule exI[of _ all_edges], rule exI[of _ all_nodes])
    apply (intro conjI)
    apply (fact a1 a2' a3 a4 a5 a6 a7 a8 a9 a10 a11 a12 ae an b1 b3)+
    apply (simp only: fe0 b2)
    apply (simp only: fe1 b2)
    apply (fact b3)
    apply (simp only: fn0 b4)
    apply (simp only: fn1 b4)
    done
qed

lemma idless_scenario_edges:
  "extract_entry_edges idless_scenario_extractor =
     Inr [\<lparr>e_path = ustr ''scenarios[1].entry_edges[0]'',
           e_type = JStr (ustr ''event''), e_pattern = JStr (ustr ''init''),
           e_target_node_id = JStr [],
           e_scenario_slug = JStr (ustr ''b''), e_scenario_name = JStr (ustr ''b''),
           e_edge_id = JNull, e_name = JNull\<rparr>]"
  by (simp add: scenario_defs idless_scenario_extractor_def idless_scenario_def ustr_def
      str_nat.simps)

lemma idless_scenario_nodes:
  "extract_nodes R idless_scenario_extractor =
     Inr [\<lparr>n_path = ustr ''scenarios[1].nodes[0]'',
           n_node_id = JStr (ustr ''n''), n_name = JStr [],
           n_scenario_slug = JStr (ustr ''b''), n_scenario_name = JStr (ustr ''b''),
           n_blocks = [], n_next_node_id = JNull\<rparr>]"
  by (simp add: scenario_defs idless_scenario_extractor_def idless_scenario_def ustr_def
      str_nat.simps)

text \<open>
  The hypotheses of claim C9 hold for the sample configuration of three scenarios: the
  ids are those of the first and the third, and the record of the second has its name,
  slug, entry edge and node.
\<close>

theorem get_all_scenario_ids_skips_idless_witness:
  "get_all_scenario_ids idless_scenario_extractor = Inr [JStr (ustr ''a''), JStr (ustr ''c'')]
   \<and> get_all_scenario_ids idless_scenario_extractor
      = get_all_scenario_ids without_idless_extractor
   \<and> wf_attrs (config_attrs idless_scenario_extractor)
   \<and> (\<exists>recs. extract_scenarios (\<lambda>v. []) idless_scenario_extractor = Inr recs
          \<and> length recs = 3
          \<and> s_path (recs ! 1) = ustr ''scenarios[1]''
          \<and> s_scenario_id (recs ! 1) = JNull
          \<and> s_name (recs ! 1) = JStr (ustr ''b'')
          \<and> s_slug (recs ! 1) = JStr (ustr ''b'')
          \<and> s_parent_scenario_id (recs ! 1) = JNull
          \<and> map e_pattern (s_entry_edges (recs ! 1)) = [JStr (ustr ''init'')]
          \<and> map n_node_id (s_nodes (recs ! 1)) = [JStr (ustr ''n'')])"
proof -
  have h1: "get_list (config_attrs idless_scenario_extractor) (ustr ''scenarios'')
      = Inr ([JObj [(ustr ''id'', JStr (ustr ''a''))]]
             @ JObj idless_scenario
             # [JObj [(ustr ''id'', JStr (ustr ''c''))]])"
    by (simp add: idless_scenario_extractor_def get_list_def)
  have h2: "map_of idless_scenario (ustr ''id'') = None"
    by (simp add: idless_scenario_def ustr_def)
  have h3: "get_list (config_attrs without_idless_extractor) (ustr ''scenarios'')
      = Inr ([JObj [(ustr ''id'', JStr (ustr ''a''))]] @ [JObj [(ustr ''id'', JStr (ustr ''c''))]])"
    by (simp add: without_idless_extractor_def get_list_def)
  have wf: "wf_attrs (config_attrs idless_scenario_extractor)"
    by (simp add: idless_scenario_extractor_def idless_scenario_def wf_defs ustr_def)
  have v: "get_all_scenario_ids idless_scenario_extractor
      = Inr [JStr (ustr ''a''), JStr (ustr ''c'')]"
    by (simp add: get_all_scenario_ids_def idless_scenario_extractor_def idless_scenario_def
        get_list_def py_set_add_def ustr_def)
  note t = get_all_scenario_ids_skips_idless[OF h1 h2 h3, where R = "\<lambda>v. []"]
  note ids = t[THEN conjunct1]
  from t[THEN conjunct2, THEN mp, OF wf]
  obtain recs all_edges all_nodes where
    a1: "extract_scenarios (\<lambda>v. []) idless_scenario_extractor = Inr recs"
    and a2: "length recs = length [JObj [(ustr ''id'', JStr (ustr ''a''))]] + 1
        + length [JObj [(ustr ''id'', JStr (ustr ''c''))]]"
    and ae: "extract_entry_edges idless_scenario_extractor = Inr all_edges"
    and an: "extract_nodes (\<lambda>v. []) idless_scenario_extractor = Inr all_nodes"
    and rec: "recs ! length [JObj [(ustr ''id'', JStr (ustr ''a''))]] =
      \<lparr>s_path = ustr ''scenarios['' @ str_nat (length [JObj [(ustr ''id'', JStr (ustr ''a''))]])
                @ ustr '']'',
       s_scenario_id = JNull,
       s_name = (case map_of idless_scenario (ustr ''name'') of Some v \<Rightarrow> v | None \<Rightarrow> JStr []),
       s_slug = (case map_of idless_scenario (ustr ''slug'') of
                   Some v \<Rightarrow> v
                 | None \<Rightarrow> (case map_of idless_scenario (ustr ''name'') of
                              Some v \<Rightarrow> v | None \<Rightarrow> JStr [])),
       s_parent_scenario_id =
         (case map_of idless_scenario (ustr ''parent_scenario_id'') of
            Some v \<Rightarrow> v | None \<Rightarrow> JNull),
       s_entry_edges =
         filter (\<lambda>e. py_eq (e_scenario_slug e)
           (case map_of idless_scenario (ustr ''slug'') of
              Some v \<Rightarrow> v
            | None \<Rightarrow> (case map_of idless_scenario (ustr ''name'') of
                         Some v \<Rightarrow> v | None \<Rightarrow> JStr []))) all_edges,
       s_nodes =
         filter (\<lambda>n. py_eq (n_scenario_slug n)
           (case map_of idless_scenario (ustr ''slug'') of
              Some v \<Rightarrow> v
            | None \<Rightarrow> (case map_of idless_scenario (ustr ''name'') of
                         Some v \<Rightarrow> v | None \<Rightarrow> JStr []))) all_nodes\<rparr>"
    by blast
  have slug: "(case map_of idless_scenario (ustr ''slug'') of
                   Some v \<Rightarrow> v
                 | None \<Rightarrow> (case map_of idless_scenario (ustr ''name'') of
                              Some v \<Rightarrow> v | None \<Rightarrow> JStr [])) = JStr (ustr ''b'')"
    by (simp add: idless_scenario_def ustr_def)
  have name: "(case map_of idless_scenario (ustr ''name'') of Some v \<Rightarrow> v | None \<Rightarrow> JStr [])
      = JStr (ustr ''b'')"
    by (simp add: idless_scenario_def ustr_def)
  have parent: "(case map_of idless_scenario (ustr ''parent_scenario_id'') of
            Some v \<Rightarrow> v | None \<Rightarrow> JNull) = JNull"
    by (simp add: idless_scenario_def ustr_def)
  have one: "length [JObj [(ustr ''id'', JStr (ustr ''a''))]] = 1" by simp
  have path: "ustr ''scenarios['' @ str_nat 1 @ ustr '']'' = ustr ''scenarios[1]''"
    by (simp add: str_nat.simps ustr_def)
  from ae have ae_val: "all_edges = [\<lparr>e_path = ustr ''scenarios[1].entry_edges[0]'',
           e_type = JStr (ustr ''event''), e_pattern = JStr (ustr ''init''),
           e_target_node_id = JStr [],
           e_scenario_slug = JStr (ustr ''b''), e_scenario_name = JStr (ustr ''b''),
           e_edge_id = JNull, e_name = JNull\<rparr>]"
    unfolding idless_scenario_edges by simp
  from an have an_val: "all_nodes = [\<lparr>n_path = ustr ''scenarios[1].nodes[0]'',
           n_node_id = JStr (ustr ''n''), n_name = JStr [],
           n_scenario_slug = JStr (ustr ''b''), n_scenario_name = JStr (ustr ''b''),
           n_blocks = [], n_next_node_id = JNull\<rparr>]"
    unfolding idless_scenario_nodes by simp
  note rec' = rec[unfolded slug, unfolded name parent one path]
  have r1: "s_path (recs ! 1) = ustr ''scenarios[1]''"
    and r2: "s_scenario_id (recs ! 1) = JNull"
    and r3: "s_name (recs ! 1) = JStr (ustr ''b'')"
    and r4: "s_slug (recs ! 1) = JStr (ustr ''b'')"
    and r5: "s_parent_scenario_id (recs ! 1) = JNull"
    unfolding rec' by simp_all
  have r6: "map e_pattern (s_entry_edges (recs ! 1)) = [JStr (ustr ''init'')]"
    unfolding rec' ae_val by simp
  have r7: "map n_node_id (s_nodes (recs ! 1)) = [JStr (ustr ''n'')]"
    unfolding rec' an_val by simp
  have a2': "length recs = 3" using a2 by simp
  from v have ids': "get_all_scenario_ids idless_scenario_extractor
      = get_all_scenario_ids without_idless_extractor" using ids by simp
  show ?thesis
    apply (intro conjI)
    apply (fact v)
    apply (fact ids')
    apply (fact wf)
    apply (rule exI[of _ recs])
    apply (intro conjI)
    apply (fact a1 a2' r1 r2 r3 r4 r5 r6 r7)+
    done
qed


text \<open>
  Claim C3 says that the block list of every extracted node is the full block extraction
  filtered by that node's id, also for a node without an \<open>id\<close> field. The code
  contradicts it there. For the configuration with one node that has one block and no
  \<open>id\<close>, \<open>extract_blocks\<close> returns the block with \<open>node_id\<close> \<open>""\<close> and
  \<open>extract_nodes\<close> returns the node with \<open>node_id\<close> \<open>""\<close>, but with an empty block
  list: the filter in \<open>extract_nodes\<close> compares with \<open>node.get("id")\<close>, which is
  \<open>None\<close>, and \<open>"" == None\<close> is false, while filtering the blocks by the node's id
  \<open>""\<close> keeps the block.
\<close>

theorem extract_nodes_idless_node:
  "set_config_attr ElementExtractor_init idless_node_config
     = Inr \<lparr>config_attrs = JObj idless_node_config\<rparr>
   \<and> extract_blocks R \<lparr>config_attrs = JObj idless_node_config\<rparr> =
       Inr [\<lparr>b_path = ustr ''scenarios[0].nodes[].blocks[0]'',
             b_type = JStr (ustr ''answer''),
             b_data = JObj [(ustr ''type'', JStr (ustr ''answer''))],
             b_scenario_slug = JStr [],
             b_scenario_name = JStr [],
             b_node_id = JStr [],
             b_node_name = JStr [],
             b_block_id = JStr (ustr ''block_0'')\<rparr>]
   \<and> extract_nodes R \<lparr>config_attrs = JObj idless_node_config\<rparr> =
       Inr [\<lparr>n_path = ustr ''scenarios[0].nodes[0]'',
             n_node_id = JStr [],
             n_name = JStr [],
             n_scenario_slug = JStr [],
             n_scenario_name = JStr [],
             n_blocks = [],
             n_next_node_id = JNull\<rparr>]
   \<and> py_eq (JStr []) (JStr []) \<and> \<not> py_eq (JStr []) JNull"
  by (simp add: extractor_defs idless_node_config_def ustr_def)

section \<open>Dynamic parametrization\<close>

lemmas id_defs = make_test_id_def in_id_class_def is_word_def ustr_def
  pattern_privet_def pattern_pomoshch_sovet_def

lemma make_test_id_privet:
  "make_test_id W (JStr pattern_privet) 0 = Inr (ustr ''match_0_'' @ pattern_privet)"
  by (simp add: id_defs str_nat.simps)

lemma make_test_id_start:
  "make_test_id W (JStr (ustr ''/start'')) (Suc 0) = Inr (ustr ''match_1_start'')"
  by (simp add: id_defs str_nat.simps)

lemma make_test_id_pomoshch_sovet:
  "make_test_id W (JStr pattern_pomoshch_sovet) (Suc (Suc 0))
     = Inr (ustr ''match_2_'' @ [1087, 1086, 1084, 1086, 1097, 1100] @ ustr ''_''
            @ [1089, 1086, 1074, 1077, 1090])"
  by (simp add: id_defs str_nat.simps)

lemma parametrize_buttons_scenario_argname:
  assumes "parametrize_buttons_scenario R extractor = Inr cs"
  shows "filter (\<lambda>c. argname c = ustr ''match_edge'') cs = []"
  using assms unfolding parametrize_buttons_scenario_def
  by (auto simp: bindE_eq_Inr Let_def ustr_def split: if_splits)

lemma pytest_generate_tests_match_part:
  assumes cfg: "cfg \<noteq> []"
    and ex: "set_config_attr ElementExtractor_init cfg = Inr extractor"
    and pm: "parametrize_match_edge W extractor = Inr [call]"
    and an: "argname call = ustr ''match_edge''"
    and fx: "ustr ''match_edge'' \<in> set fixturenames"
  shows "(\<forall>calls. pytest_generate_tests R W (Some cfg) fixturenames = Inr calls \<longrightarrow>
            filter (\<lambda>c. argname c = ustr ''match_edge'') calls = [call])
       \<and> (ustr ''buttons_scenario'' \<notin> set fixturenames \<longrightarrow>
            pytest_generate_tests R W (Some cfg) fixturenames = Inr [call])"
proof (intro conjI allI impI)
  fix calls
  assume r: "pytest_generate_tests R W (Some cfg) fixturenames = Inr calls"
  show "filter (\<lambda>c. argname c = ustr ''match_edge'') calls = [call]"
  proof (cases "ustr ''buttons_scenario'' \<in> set fixturenames")
    case True
    with r cfg ex pm fx obtain cs where cs: "parametrize_buttons_scenario R extractor = Inr cs"
      and calls: "calls = [call] @ cs"
      unfolding pytest_generate_tests_def by (auto simp: bindE_eq_Inr)
    from parametrize_buttons_scenario_argname[OF cs] calls an show ?thesis by simp
  next
    case False
    with r cfg ex pm fx have "calls = [call]"
      unfolding pytest_generate_tests_def by simp
    with an show ?thesis by simp
  qed
next
  assume "ustr ''buttons_scenario'' \<notin> set fixturenames"
  with cfg ex pm fx show "pytest_generate_tests R W (Some cfg) fixturenames = Inr [call]"
    unfolding pytest_generate_tests_def by simp
qed

text \<open>
  Claim C6. For a loaded, non-empty configuration whose match-type entry edges are
  exactly three, with the patterns \<open>privet\<close>, \<open>/start\<close> and \<open>pomoshch sovet\<close> (the
  first and the third in Cyrillic letters) in document order, the parametrization of
  \<open>match_edge\<close> is one call with these three edges and the identifiers
  \<open>match_0_privet\<close>, \<open>match_1_start\<close> and \<open>match_2_pomoshch_sovet\<close>, whatever the
  Unicode table says about other characters. It is the only call for \<open>match_edge\<close>
  that \<open>pytest_generate_tests\<close> makes, and the only call at all for a test function
  that does not ask for \<open>buttons_scenario\<close>.
\<close>

theorem match_edge_test_ids:
  assumes cfg: "cfg \<noteq> []"
    and ex: "set_config_attr ElementExtractor_init cfg = Inr extractor"
    and edges: "extract_entry_edges_by_type extractor (ustr ''match'') = Inr [e0, e1, e2]"
    and p0: "e_pattern e0 = JStr pattern_privet"
    and p1: "e_pattern e1 = JStr (ustr ''/start'')"
    and p2: "e_pattern e2 = JStr pattern_pomoshch_sovet"
    and fx: "ustr ''match_edge'' \<in> set fixturenames"
    and call: "call = \<lparr>argname = ustr ''match_edge'',
                argvalues = [EdgeValue e0, EdgeValue e1, EdgeValue e2],
                ids = Some [JStr (ustr ''match_0_'' @ pattern_privet),
                            JStr (ustr ''match_1_start''),
                            JStr (ustr ''match_2_'' @ [1087, 1086, 1084, 1086, 1097, 1100]
                                  @ ustr ''_'' @ [1089, 1086, 1074, 1077, 1090])]\<rparr>"
  shows "parametrize_match_edge W extractor = Inr [call]
       \<and> (\<forall>calls. pytest_generate_tests R W (Some cfg) fixturenames = Inr calls \<longrightarrow>
            filter (\<lambda>c. argname c = ustr ''match_edge'') calls = [call])
       \<and> (ustr ''buttons_scenario'' \<notin> set fixturenames \<longrightarrow>
            pytest_generate_tests R W (Some cfg) fixturenames = Inr [call])"
proof -
  have pm: "parametrize_match_edge W extractor = Inr [call]"
    unfolding parametrize_match_edge_def edges call
    by (simp add: p0 p1 p2 make_test_id_privet make_test_id_start make_test_id_pomoshch_sovet)
  have an: "argname call = ustr ''match_edge''" by (simp add: call)
  from pm pytest_generate_tests_match_part[OF cfg ex pm an fx] show ?thesis by blast
qed

lemma parametrize_buttons_scenario_Inl:
  assumes "parametrize_buttons_scenario R extractor = Inl e"
  shows "extract_scenarios R extractor = Inl e"
  using assms unfolding parametrize_buttons_scenario_def
  by (cases "extract_scenarios R extractor") (simp_all add: Let_def split: if_splits)

text \<open>
  Claim C4, amended: for every loaded configuration that is not the empty mapping and
  has no match-type entry edge, and every test function that asks for \<open>match_edge\<close>,
  the parametrization of \<open>match_edge\<close> is exactly one call with exactly one test case,
  and that case is skipped with the reason \<open>No match edges\<close>. The hook returns this
  call, followed by the call for \<open>buttons_scenario\<close> when the test function asks for
  that fixture too; whenever it returns, exactly one test case is registered for
  \<open>match_edge\<close>, and it raises only when \<open>buttons_scenario\<close> is asked for and the
  scenario extraction raises. For the empty mapping and for a configuration that is not
  available the hook returns without any parametrization.
\<close>

theorem no_match_edges_one_skipped_case:
  assumes cfg: "cfg \<noteq> []"
    and ex: "set_config_attr ElementExtractor_init cfg = Inr extractor"
    and edges: "extract_entry_edges_by_type extractor (ustr ''match'') = Inr []"
    and fx: "ustr ''match_edge'' \<in> set fixturenames"
    and call: "call = \<lparr>argname = ustr ''match_edge'',
                argvalues = [SkippedNone (ustr ''No match edges'')],
                ids = None\<rparr>"
  shows "parametrize_match_edge W extractor = Inr [call]
       \<and> pytest_generate_tests R W (Some cfg) fixturenames =
            (if ustr ''buttons_scenario'' \<in> set fixturenames
             then bindE (parametrize_buttons_scenario R extractor) (\<lambda>calls2. Inr (call # calls2))
             else Inr [call])
       \<and> (\<forall>calls. pytest_generate_tests R W (Some cfg) fixturenames = Inr calls \<longrightarrow>
            filter (\<lambda>c. argname c = ustr ''match_edge'') calls = [call]
            \<and> cases_for (ustr ''match_edge'') calls = [SkippedNone (ustr ''No match edges'')])
       \<and> (ustr ''buttons_scenario'' \<notin> set fixturenames \<longrightarrow>
            pytest_generate_tests R W (Some cfg) fixturenames = Inr [call])
       \<and> (\<forall>e. pytest_generate_tests R W (Some cfg) fixturenames = Inl e \<longrightarrow>
            ustr ''buttons_scenario'' \<in> set fixturenames
            \<and> extract_scenarios R extractor = Inl e)
       \<and> pytest_generate_tests R W None fixturenames = Inr []
       \<and> pytest_generate_tests R W (Some []) fixturenames = Inr []"
proof -
  have pm: "parametrize_match_edge W extractor = Inr [call]"
    unfolding parametrize_match_edge_def edges call by simp
  have an: "argname call = ustr ''match_edge''" by (simp add: call)
  have whole: "pytest_generate_tests R W (Some cfg) fixturenames =
            (if ustr ''buttons_scenario'' \<in> set fixturenames
             then bindE (parametrize_buttons_scenario R extractor) (\<lambda>calls2. Inr (call # calls2))
             else Inr [call])"
    unfolding pytest_generate_tests_def using cfg ex pm fx by simp
  note m = pytest_generate_tests_match_part[OF cfg ex pm an fx, of R]
  have cs: "\<And>calls. filter (\<lambda>c. argname c = ustr ''match_edge'') calls = [call] \<Longrightarrow>
     cases_for (ustr ''match_edge'') calls = [SkippedNone (ustr ''No match edges'')]"
    unfolding cases_for_def by (simp add: call)
  from m cs have reg: "\<forall>calls. pytest_generate_tests R W (Some cfg) fixturenames = Inr calls \<longrightarrow>
            filter (\<lambda>c. argname c = ustr ''match_edge'') calls = [call]
            \<and> cases_for (ustr ''match_edge'') calls = [SkippedNone (ustr ''No match edges'')]"
    by blast
  from m have nb: "ustr ''buttons_scenario'' \<notin> set fixturenames \<longrightarrow>
            pytest_generate_tests R W (Some cfg) fixturenames = Inr [call]"
    by blast
  have raise: "\<forall>e. pytest_generate_tests R W (Some cfg) fixturenames = Inl e \<longrightarrow>
            ustr ''buttons_scenario'' \<in> set fixturenames
            \<and> extract_scenarios R extractor = Inl e"
  proof (intro allI impI)
    fix e assume e: "pytest_generate_tests R W (Some cfg) fixturenames = Inl e"
    show "ustr ''buttons_scenario'' \<in> set fixturenames \<and> extract_scenarios R extractor = Inl e"
    proof (cases "ustr ''buttons_scenario'' \<in> set fixturenames")
      case True
      with e whole have "bindE (parametrize_buttons_scenario R extractor)
          (\<lambda>calls2. Inr (call # calls2)) = Inl e" by simp
      then have "parametrize_buttons_scenario R extractor = Inl e"
        by (cases "parametrize_buttons_scenario R extractor") simp_all
      then have "extract_scenarios R extractor = Inl e"
        by (rule parametrize_buttons_scenario_Inl)
      with True show ?thesis by simp
    next
      case False
      with e whole show ?thesis by simp
    qed
  qed
  have none: "pytest_generate_tests R W None fixturenames = Inr []"
    and empty: "pytest_generate_tests R W (Some []) fixturenames = Inr []"
    by (simp_all add: pytest_generate_tests_def)
  from pm whole reg nb raise none empty show ?thesis by (intro conjI)
qed

text \<open>
  Claim C4, as stated, speaks of every configuration without match-type entry edges. It
  fails for the empty mapping: it has no entry edge at all, but \<open>if not config: return\<close>
  treats it like a configuration that is not available, and no test case is registered.
\<close>

theorem no_match_edges_counterexample:
  "set_config_attr ElementExtractor_init [] = Inr \<lparr>config_attrs = JObj []\<rparr>
   \<and> extract_entry_edges_by_type \<lparr>config_attrs = JObj []\<rparr> (ustr ''match'') = Inr []
   \<and> pytest_generate_tests (\<lambda>v. []) (\<lambda>c. False) (Some []) [ustr ''match_edge''] = Inr []
   \<and> cases_for (ustr ''match_edge'') [] = []"
  by (simp add: set_config_attr_def extract_bot_attributes_def ElementExtractor_init_def
      extract_entry_edges_by_type_def extract_entry_edges_def get_list_def
      pytest_generate_tests_def cases_for_def)

lemmas edge_defs =
  set_config_attr_def extract_bot_attributes_def ElementExtractor_init_def
  extract_entry_edges_by_type_def extract_entry_edges_def scenario_entry_edges_def
  entry_edge_info_def scenario_slug_name_def get_list_def match_edge_json_def
  sample_edge_info_def

lemma three_match_config_edges:
  "extract_entry_edges_by_type \<lparr>config_attrs = JObj three_match_config\<rparr> (ustr ''match'')
     = Inr [sample_edge_info 0 (ustr ''match'') pattern_privet,
            sample_edge_info 2 (ustr ''match'') (ustr ''/start''),
            sample_edge_info 3 (ustr ''match'') pattern_pomoshch_sovet]"
  by (simp add: edge_defs three_match_config_def ustr_def str_nat.simps)

text \<open>
  Claim C6 on the sample configuration with the three match edges: the call that
  \<open>pytest_generate_tests\<close> makes for a test function asking for \<open>match_edge\<close>.
\<close>

theorem match_edge_test_ids_witness:
  "three_match_config \<noteq> []
   \<and> pytest_generate_tests (\<lambda>v. []) (\<lambda>c. False) (Some three_match_config) [ustr ''match_edge'']
     = Inr [\<lparr>argname = ustr ''match_edge'',
             argvalues = [EdgeValue (sample_edge_info 0 (ustr ''match'') pattern_privet),
                          EdgeValue (sample_edge_info 2 (ustr ''match'') (ustr ''/start'')),
                          EdgeValue (sample_edge_info 3 (ustr ''match'') pattern_pomoshch_sovet)],
             ids = Some [JStr (ustr ''match_0_'' @ pattern_privet),
                         JStr (ustr ''match_1_start''),
                         JStr (ustr ''match_2_'' @ [1087, 1086, 1084, 1086, 1097, 1100]
                               @ ustr ''_'' @ [1089, 1086, 1074, 1077, 1090])]\<rparr>]"
proof -
  have h1: "three_match_config \<noteq> []" by (simp add: three_match_config_def)
  have h2: "set_config_attr ElementExtractor_init three_match_config
      = Inr \<lparr>config_attrs = JObj three_match_config\<rparr>"
    by (simp add: edge_defs three_match_config_def ustr_def)
  have p0: "e_pattern (sample_edge_info 0 (ustr ''match'') pattern_privet) = JStr pattern_privet"
    and p1: "e_pattern (sample_edge_info 2 (ustr ''match'') (ustr ''/start''))
      = JStr (ustr ''/start'')"
    and p2: "e_pattern (sample_edge_info 3 (ustr ''match'') pattern_pomoshch_sovet)
      = JStr pattern_pomoshch_sovet"
    by (simp_all add: sample_edge_info_def)
  have fx: "ustr ''match_edge'' \<in> set [ustr ''match_edge'']" by simp
  have nb: "ustr ''buttons_scenario'' \<notin> set [ustr ''match_edge'']" by (simp add: ustr_def)
  note t = match_edge_test_ids[OF h1 h2 three_match_config_edges p0 p1 p2 fx refl,
      where R = "\<lambda>v. []" and W = "\<lambda>c. False"]
  note r = t[THEN conjunct2, THEN conjunct2, THEN mp, OF nb]
  from h1 r show ?thesis by (rule conjI)
qed

lemma event_only_config_edges:
  "extract_entry_edges_by_type \<lparr>config_attrs = JObj event_only_config\<rparr> (ustr ''match'')
     = Inr []"
  by (simp add: edge_defs event_only_config_def ustr_def)

lemma event_only_config_buttons:
  "parametrize_buttons_scenario R \<lparr>config_attrs = JObj event_only_config\<rparr>
     = Inr [\<lparr>argname = ustr ''buttons_scenario'',
             argvalues = [SkippedNone (ustr ''No buttons blocks'')],
             ids = None\<rparr>]"
  by (simp add: parametrize_buttons_scenario_def extract_scenarios_def scenario_info_def
      extract_nodes_def scenario_node_infos_def edge_defs has_buttons_def
      event_only_config_def ustr_def)

text \<open>
  Claim C4 (amended) on the sample configuration with an event edge only, for a test
  function that asks for \<open>match_edge\<close> alone and for one that asks for both fixtures.
\<close>

theorem no_match_edges_one_skipped_case_witness:
  "event_only_config \<noteq> []
   \<and> pytest_generate_tests (\<lambda>v. []) (\<lambda>c. False) (Some event_only_config) [ustr ''match_edge'']
     = Inr [\<lparr>argname = ustr ''match_edge'',
             argvalues = [SkippedNone (ustr ''No match edges'')],
             ids = None\<rparr>]
   \<and> cases_for (ustr ''match_edge'')
        [\<lparr>argname = ustr ''match_edge'',
          argvalues = [SkippedNone (ustr ''No match edges'')],
          ids = None\<rparr>] = [SkippedNone (ustr ''No match edges'')]
   \<and> pytest_generate_tests (\<lambda>v. []) (\<lambda>c. False) (Some event_only_config)
        [ustr ''match_edge'', ustr ''buttons_scenario'']
     = Inr [\<lparr>argname = ustr ''match_edge'',
             argvalues = [SkippedNone (ustr ''No match edges'')],
             ids = None\<rparr>,
            \<lparr>argname = ustr ''buttons_scenario'',
             argvalues = [SkippedNone (ustr ''No buttons blocks'')],
             ids = None\<rparr>]"
proof -
  have h1: "event_only_config \<noteq> []" by (simp add: event_only_config_def)
  have h2: "set_config_attr ElementExtractor_init event_only_config
      = Inr \<lparr>config_attrs = JObj event_only_config\<rparr>"
    by (simp add: edge_defs event_only_config_def ustr_def)
  have fx: "ustr ''match_edge'' \<in> set [ustr ''match_edge'']" by simp
  have fx2: "ustr ''match_edge'' \<in> set [ustr ''match_edge'', ustr ''buttons_scenario'']"
    by simp
  have nb: "ustr ''buttons_scenario'' \<notin> set [ustr ''match_edge'']" by (simp add: ustr_def)
  note t = no_match_edges_one_skipped_case[OF h1 h2 event_only_config_edges fx refl,
      where R = "\<lambda>v. []" and W = "\<lambda>c. False"]
  note r = t[THEN conjunct2, THEN conjunct2, THEN conjunct2, THEN conjunct1, THEN mp, OF nb]
  note c = t[THEN conjunct2, THEN conjunct2, THEN conjunct1, THEN spec, THEN mp, OF r,
      THEN conjunct2]
  note t2 = no_match_edges_one_skipped_case[OF h1 h2 event_only_config_edges fx2 refl,
      where R = "\<lambda>v. []" and W = "\<lambda>c. False"]
  have both: "pytest_generate_tests (\<lambda>v. []) (\<lambda>c. False) (Some event_only_config)
        [ustr ''match_edge'', ustr ''buttons_scenario'']
     = Inr [\<lparr>argname = ustr ''match_edge'',
             argvalues = [SkippedNone (ustr ''No match edges'')],
             ids = None\<rparr>,
            \<lparr>argname = ustr ''buttons_scenario'',
             argvalues = [SkippedNone (ustr ''No buttons blocks'')],
             ids = None\<rparr>]"
    unfolding t2[THEN conjunct2, THEN conjunct1] by (simp add: event_only_config_buttons)
  from h1 r c both show ?thesis by (intro conjI)
qed

end
